theory Spec2Isabelle
  imports Main "HOL-Library.AList"
begin

section \<open>JavaScript values\<close>

text \<open>
  The values that flow through \<^verbatim>\<open>Request.js\<close>: what a JSON body parses to, what
  a callback or a hook returns, and the element handed to the constructor. An object is
  the list of its own enumerable properties in enumeration order, with distinct keys;
  \<open>Obj\<close> is a plain object, whose prototype is \<^verbatim>\<open>Object.prototype\<close>, and
  \<open>Inheriting kvs p\<close> an object whose prototype has been set to \<open>p\<close> (an object or
  \<^verbatim>\<open>null\<close>). An \<open>Element\<close> is a DOM element, named by a number. Numbers are
  integers.
\<close>

datatype jsval =
    Undefined
  | Null
  | Bool bool
  | Num int
  | Str string
  | Arr "jsval list"
  | Obj "(string \<times> jsval) list"
  | Inheriting "(string \<times> jsval) list" jsval
  | Element nat

datatype js_error =
    Error string
  | TypeError string
  | SyntaxError string
  | RenderedError jsval jsval jsval jsval jsval

fun truthy :: "jsval \<Rightarrow> bool" where
  "truthy Undefined = False"
| "truthy Null = False"
| "truthy (Bool b) = b"
| "truthy (Num n) = (n \<noteq> 0)"
| "truthy (Str s) = (s \<noteq> [])"
| "truthy (Arr xs) = True"
| "truthy (Obj kvs) = True"
| "truthy (Inheriting kvs p) = True"
| "truthy (Element e) = True"

text \<open>\<^verbatim>\<open>a || b\<close>\<close>

definition js_or :: "jsval \<Rightarrow> jsval \<Rightarrow> jsval" where
  "js_or a b = (if truthy a then a else b)"

text \<open>\<^verbatim>\<open>x instanceof Element\<close>\<close>

fun instanceof_Element :: "jsval \<Rightarrow> bool" where
  "instanceof_Element (Element e) = True"
| "instanceof_Element v = False"

text \<open>
  \<^verbatim>\<open>obj.name\<close> for the side-channel names the source reads
  (\<^verbatim>\<open>X_WINTER_SUCCESS\<close>, \<^verbatim>\<open>X_WINTER_REDIRECT\<close>, ...): an object gives
  the property or \<^verbatim>\<open>undefined\<close>, an object with a prototype of its own looks
  the name up there when it has no such property itself; a string, an array or another
  primitive has no property of such a name, and neither has \<^verbatim>\<open>Object.prototype\<close>.
\<close>

fun get_prop :: "jsval \<Rightarrow> string \<Rightarrow> jsval" where
  "get_prop (Obj kvs) k = (case map_of kvs k of Some v \<Rightarrow> v | None \<Rightarrow> Undefined)"
| "get_prop (Inheriting kvs p) k = (case map_of kvs k of Some v \<Rightarrow> v | None \<Rightarrow> get_prop p k)"
| "get_prop v k = Undefined"

text \<open>
  The names \<^verbatim>\<open>Object.prototype\<close> gives every plain object. Each of them reads as
  a function, and \<^verbatim>\<open>__proto__\<close> as the prototype itself: a truthy value that is
  no string.
\<close>

definition object_prototype_names :: "string list" where
  "object_prototype_names =
     [''constructor'', ''hasOwnProperty'', ''isPrototypeOf'', ''propertyIsEnumerable'',
      ''toLocaleString'', ''toString'', ''valueOf'', ''__proto__'',
      ''__defineGetter__'', ''__defineSetter__'', ''__lookupGetter__'', ''__lookupSetter__'']"

text \<open>Decimal rendering of an index, as property names of strings and arrays are.\<close>

definition digit_char :: "nat \<Rightarrow> char" where
  "digit_char d = ''0123456789'' ! d"

fun string_of_nat :: "nat \<Rightarrow> string" where
  "string_of_nat n =
     (if n < 10 then [digit_char n] else string_of_nat (n div 10) @ [digit_char (n mod 10)])"

declare string_of_nat.simps [simp del]

fun index_entries :: "nat \<Rightarrow> jsval list \<Rightarrow> (string \<times> jsval) list" where
  "index_entries i [] = []"
| "index_entries i (x # xs) = (string_of_nat i, x) # index_entries (Suc i) xs"

text \<open>
  The own enumerable string-keyed properties of a value, in enumeration order: the
  properties of an object, the indexed elements of an array, the indexed characters of
  a string (each a one-character string), none for the other primitives.
\<close>

fun own_entries :: "jsval \<Rightarrow> (string \<times> jsval) list" where
  "own_entries (Obj kvs) = kvs"
| "own_entries (Inheriting kvs p) = kvs"
| "own_entries (Arr xs) = index_entries 0 xs"
| "own_entries (Str s) = index_entries 0 (map (\<lambda>c. Str [c]) s)"
| "own_entries v = []"

text \<open>\<^verbatim>\<open>Object.entries(v)\<close>: throws on \<^verbatim>\<open>null\<close> and \<^verbatim>\<open>undefined\<close>.\<close>

fun object_entries :: "jsval \<Rightarrow> js_error + (string \<times> jsval) list" where
  "object_entries Undefined = Inl (TypeError ''Cannot convert undefined or null to object'')"
| "object_entries Null = Inl (TypeError ''Cannot convert undefined or null to object'')"
| "object_entries v = Inr (own_entries v)"

text \<open>
  \<^verbatim>\<open>target[key] = value\<close> on an object built from \<^verbatim>\<open>{}\<close>. For every key
  but \<^verbatim>\<open>__proto__\<close> it is \<open>AList.update\<close> on the own properties: the value is
  replaced in place when the key is there, and appended otherwise. The key
  \<^verbatim>\<open>__proto__\<close> reaches the setter of \<^verbatim>\<open>Object.prototype\<close>, unless the
  object or a prototype of its own has a property of that name: the setter makes no
  property, it replaces the prototype when the value is an object or \<^verbatim>\<open>null\<close>
  and does nothing otherwise.
\<close>

fun is_object :: "jsval \<Rightarrow> bool" where
  "is_object (Arr xs) = True"
| "is_object (Obj kvs) = True"
| "is_object (Inheriting kvs p) = True"
| "is_object (Element e) = True"
| "is_object v = False"

fun reaches_proto_setter :: "jsval \<Rightarrow> bool" where
  "reaches_proto_setter (Obj kvs) = (map_of kvs ''__proto__'' = None)"
| "reaches_proto_setter (Inheriting kvs p) =
     (map_of kvs ''__proto__'' = None \<and> reaches_proto_setter p)"
| "reaches_proto_setter (Arr xs) = True"
| "reaches_proto_setter (Element e) = True"
| "reaches_proto_setter v = False"

fun add_own :: "string \<Rightarrow> jsval \<Rightarrow> jsval \<Rightarrow> jsval" where
  "add_own k v (Obj kvs) = Obj (AList.update k v kvs)"
| "add_own k v (Inheriting kvs p) = Inheriting (AList.update k v kvs) p"
| "add_own k v target = target"

fun with_prototype :: "jsval \<Rightarrow> jsval \<Rightarrow> jsval" where
  "with_prototype (Obj kvs) p = Inheriting kvs p"
| "with_prototype (Inheriting kvs q) p = Inheriting kvs p"
| "with_prototype target p = target"

definition set_property :: "string \<Rightarrow> jsval \<Rightarrow> jsval \<Rightarrow> jsval" where
  "set_property k v target =
     (if k = ''__proto__'' \<and> reaches_proto_setter target
      then (if is_object v \<or> v = Null then with_prototype target v else target)
      else add_own k v target)"

text \<open>
  \<^verbatim>\<open>Object.assign(target, source)\<close> sets every own property of the source in
  turn (and skips \<^verbatim>\<open>null\<close> and \<^verbatim>\<open>undefined\<close> sources).
\<close>

definition object_assign :: "jsval \<Rightarrow> jsval \<Rightarrow> jsval" where
  "object_assign target source =
     foldl (\<lambda>acc kv. set_property (fst kv) (snd kv) acc) target (own_entries source)"

section \<open>The handler-name pattern\<close>

text \<open>
  \<^verbatim>\<open>/^(?:\w+\:{2})?on*/\<close> as data. The atoms are a literal character and
  \<^verbatim>\<open>\w\<close>; the quantifiers of the pattern apply to atoms only. \<open>rx_match r s\<close>
  lists the remainders of \<open>s\<close> after every way \<open>r\<close> matches a prefix of it, in the
  order a backtracking matcher tries them (greedy first).
\<close>

datatype atom = Lit char | WordChar

datatype rx =
    Atom atom
  | Star atom
  | Plus atom
  | Times nat atom
  | Opt rx
  | Seq rx rx

definition is_word_char :: "char \<Rightarrow> bool" where
  "is_word_char c =
     (let n = of_char c :: nat in
      (48 \<le> n \<and> n \<le> 57) \<or> (65 \<le> n \<and> n \<le> 90) \<or> (97 \<le> n \<and> n \<le> 122) \<or> n = 95)"

fun atom_ok :: "atom \<Rightarrow> char \<Rightarrow> bool" where
  "atom_ok (Lit a) c = (c = a)"
| "atom_ok WordChar c = is_word_char c"

fun match_atom :: "atom \<Rightarrow> string \<Rightarrow> string list" where
  "match_atom a [] = []"
| "match_atom a (c # cs) = (if atom_ok a c then [cs] else [])"

fun match_star :: "atom \<Rightarrow> string \<Rightarrow> string list" where
  "match_star a [] = [[]]"
| "match_star a (c # cs) = (if atom_ok a c then match_star a cs @ [c # cs] else [c # cs])"

fun match_times :: "nat \<Rightarrow> atom \<Rightarrow> string \<Rightarrow> string list" where
  "match_times 0 a s = [s]"
| "match_times (Suc n) a s = concat (map (match_times n a) (match_atom a s))"

fun rx_match :: "rx \<Rightarrow> string \<Rightarrow> string list" where
  "rx_match (Atom a) s = match_atom a s"
| "rx_match (Star a) s = match_star a s"
| "rx_match (Plus a) s = concat (map (match_star a) (match_atom a s))"
| "rx_match (Times n a) s = match_times n a s"
| "rx_match (Opt r) s = rx_match r s @ [s]"
| "rx_match (Seq r1 r2) s = concat (map (rx_match r2) (rx_match r1 s))"

definition handler_rx :: rx where
  "handler_rx =
     Seq (Opt (Seq (Plus WordChar) (Times 2 (Lit CHR '':''))))
         (Seq (Atom (Lit CHR ''o'')) (Star (Lit CHR ''n'')))"

text \<open>
  \<^verbatim>\<open>handler.match(/^.../)\<close> is not \<^verbatim>\<open>null\<close>: the pattern is anchored at the
  start only, so it matches when some prefix does.
\<close>

definition handler_matches :: "string \<Rightarrow> bool" where
  "handler_matches s = (rx_match handler_rx s \<noteq> [])"

text \<open>
  The handler-name format as the specification words it, \<^verbatim>\<open>[namespace::]on<Name>\<close>:
  an optional namespace of word characters followed by \<^verbatim>\<open>::\<close>, then \<^verbatim>\<open>on\<close>,
  then a name of at least one character.
\<close>

definition on_name :: "string \<Rightarrow> bool" where
  "on_name s = (take 2 s = ''on'' \<and> drop 2 s \<noteq> [])"

definition spec_handler_format :: "string \<Rightarrow> bool" where
  "spec_handler_format s =
     (on_name s \<or>
      (takeWhile is_word_char s \<noteq> [] \<and>
       take 2 (dropWhile is_word_char s) = ''::'' \<and>
       on_name (drop 2 (dropWhile is_word_char s))))"

section \<open>Construction checks\<close>

text \<open>
  \<^verbatim>\<open>checkRequest\<close>. A thrown exception is \<open>Inl\<close>. A handler that is not a string has
  no callable \<^verbatim>\<open>match\<close>, so the call itself throws a \<^verbatim>\<open>TypeError\<close>. On success
  the handler name is returned.
\<close>

definition invalid_handler_message :: string where
  "invalid_handler_message =
     ''Invalid AJAX handler name. The correct handler name format is: '' @
     [CHR 0x22] @ ''onEvent'' @ [CHR 0x22] @ ''.''"

definition checkRequest :: "jsval \<Rightarrow> jsval \<Rightarrow> js_error + string" where
  "checkRequest element handler =
     (if element \<noteq> Undefined \<and> instanceof_Element element = False
      then Inl (Error ''The element provided must be an Element instance'')
      else if handler = Undefined
      then Inl (Error ''The AJAX handler name is not specified.'')
      else case handler of
             Str h \<Rightarrow>
               if \<not> handler_matches h
               then Inl (Error invalid_handler_message)
               else Inr h
           | _ \<Rightarrow> Inl (TypeError ''this.handler.match is not a function''))"

text \<open>Once the check has passed the element is \<^verbatim>\<open>undefined\<close> or an element.\<close>

fun element_of :: "jsval \<Rightarrow> nat option" where
  "element_of (Element e) = Some e"
| "element_of v = None"

section \<open>Options, environment, effects\<close>

text \<open>
  The options bag, with the keys the request reads. A callback option is \<open>Some f\<close> when
  \<^verbatim>\<open>typeof options.name === 'function'\<close>; \<open>f\<close> maps the argument list to the
  returned value. The other keys are typed as the request descriptor lists them, and
  \<open>None\<close> is an absent key: \<open>opt_update\<close> maps partial names to selectors,
  \<open>opt_data\<close> is the key/value payload (an object, so not \<^verbatim>\<open>null\<close>),
  \<open>opt_form\<close> names a form element.
\<close>

type_synonym callback = "jsval list \<Rightarrow> jsval"

record options =
  opt_url :: "string option"
  opt_update :: "(string \<times> string) list option"
  opt_confirm :: "string option"
  opt_redirect :: "string option"
  opt_flash :: bool
  opt_files :: bool
  opt_data :: "(string \<times> jsval) list option"
  opt_browserValidate :: bool
  opt_form :: "nat option"
  beforeUpdate :: "callback option"
  handleConfirmMessage :: "callback option"
  handleRedirectResponse :: "callback option"
  handleErrorMessage :: "callback option"
  handleFlashMessages :: "callback option"
  handleValidationErrors :: "callback option"

text \<open>\<^verbatim>\<open>this.options = options || {}\<close>: the empty bag.\<close>

definition no_options :: options where
  "no_options =
     \<lparr>opt_url = None, opt_update = None, opt_confirm = None, opt_redirect = None,
      opt_flash = False, opt_files = False, opt_data = None, opt_browserValidate = False,
      opt_form = None, beforeUpdate = None, handleConfirmMessage = None,
      handleRedirectResponse = None, handleErrorMessage = None,
      handleFlashMessages = None, handleValidationErrors = None\<rparr>"

text \<open>The state of a promise once the event loop has nothing left to run.\<close>

datatype ('a, 'e) promise = Fulfilled 'a | Rejected 'e | Pending

text \<open>
  The body handed to \<^verbatim>\<open>fetch\<close>: a \<^verbatim>\<open>FormData\<close> travels as multipart form
  data; encoded key/value pairs would be the other wire form. Each holds its entries in
  order.
\<close>

datatype request_body =
    MultipartFormData "(string \<times> jsval) list"
  | UrlEncodedPairs "(string \<times> jsval) list"

fun is_multipart :: "request_body \<Rightarrow> bool" where
  "is_multipart (MultipartFormData es) = True"
| "is_multipart (UrlEncodedPairs es) = False"

fun body_entries :: "request_body \<Rightarrow> (string \<times> jsval) list" where
  "body_entries (MultipartFormData es) = es"
| "body_entries (UrlEncodedPairs es) = es"

text \<open>
  What \<^verbatim>\<open>fetch\<close> answers with. \<open>json_body\<close> and \<open>text_body\<close> are what
  \<^verbatim>\<open>response.json()\<close> and \<^verbatim>\<open>response.text()\<close> settle to: \<open>Inr\<close> the value,
  \<open>Inl\<close> the rendering of the rejection reason.
\<close>

record http_response =
  resp_ok :: bool
  resp_status :: nat
  content_type :: "string option"
  json_body :: "string + jsval"
  text_body :: "string + string"

datatype fetch_result = NetworkFailure string | NoResponse | Response http_response

type_synonym dom = "nat \<Rightarrow> string"

text \<open>
  Everything outside \<^verbatim>\<open>Request.js\<close> that the request calls: the hook bus of the
  framework (\<^verbatim>\<open>globalEvent\<close>, \<^verbatim>\<open>globalPromiseEvent\<close>,
  \<^verbatim>\<open>listensToEvent\<close>, by hook name and arguments; the request itself, passed as
  \<^verbatim>\<open>this\<close>, is left out of the argument list), the browser (\<^verbatim>\<open>confirm\<close>,
  \<^verbatim>\<open>fetch\<close>, form validity, \<^verbatim>\<open>querySelectorAll\<close> on the current page), and
  the sanitizer. \<open>setupListeners\<close> is what the listeners of \<^verbatim>\<open>ajaxSetup\<close> leave
  of the options, which they may change in place. \<open>xsrf_cookie\<close> is the decoded token
  the cookie scan of \<^verbatim>\<open>xsrfToken\<close> ends with, \<open>None\<close> for \<^verbatim>\<open>null\<close> (a cookie
  that \<^verbatim>\<open>decodeURIComponent\<close> rejects is outside the model). The page is the
  \<^verbatim>\<open>innerHTML\<close> of every element, kept as the string assigned to it. Callbacks
  and listeners are known by what they return.
\<close>

record env =
  setupListeners :: "options \<Rightarrow> options"
  globalEvent :: "string \<Rightarrow> jsval list \<Rightarrow> jsval"
  globalPromiseEvent :: "string \<Rightarrow> jsval list \<Rightarrow> (jsval, unit) promise"
  listensToEvent :: "string \<Rightarrow> nat"
  browser_confirm :: "jsval \<Rightarrow> bool"
  fetch :: "string \<Rightarrow> (string \<times> string) list \<Rightarrow> request_body \<Rightarrow> fetch_result"
  closest_form :: "nat \<Rightarrow> nat option"
  checkValidity :: "nat \<Rightarrow> bool"
  querySelectorAll :: "dom \<Rightarrow> string \<Rightarrow> js_error + nat list"
  sanitize :: "jsval \<Rightarrow> string"
  location_href :: string
  xsrf_cookie :: "string option"

text \<open>The calls the request makes on its surroundings, in the order it makes them.\<close>

datatype event =
    GlobalEvent string "jsval list"
  | GlobalPromiseEvent string "jsval list"
  | ListensToEvent string
  | Callback string "jsval list"
  | BrowserConfirm jsval
  | ReportValidity nat
  | ConsoleLog jsval
  | Fetch string "(string \<times> string) list" request_body
  | QuerySelectorAll string
  | SetInnerHTML nat string
  | RequestAnimationFrame
  | AddPopstateListener
  | LocationAssign jsval
  | Alert jsval
  | ProcessAssets jsval

text \<open>
  The pattern every per-request override follows:
  \<^verbatim>\<open>if (typeof cb === 'function') { if (cb.apply(this, args) === false) return; }\<close>
\<close>

definition callback_events :: "string \<Rightarrow> callback option \<Rightarrow> jsval list \<Rightarrow> event list" where
  "callback_events name cb args = (case cb of Some f \<Rightarrow> [Callback name args] | None \<Rightarrow> [])"

definition returns_false :: "callback option \<Rightarrow> jsval list \<Rightarrow> bool" where
  "returns_false cb args = (case cb of Some f \<Rightarrow> f args = Bool False | None \<Rightarrow> False)"

section \<open>Getters\<close>

definition form :: "options \<Rightarrow> env \<Rightarrow> nat option \<Rightarrow> nat option" where
  "form opts env element =
     (case opt_form opts of
        Some f \<Rightarrow> Some f
      | None \<Rightarrow> (case element of None \<Rightarrow> None | Some e \<Rightarrow> closest_form env e))"

definition form_value :: "nat option \<Rightarrow> jsval" where
  "form_value f = (case f of Some n \<Rightarrow> Element n | None \<Rightarrow> Null)"

definition url :: "options \<Rightarrow> env \<Rightarrow> string" where
  "url opts env =
     (case opt_url opts of Some u \<Rightarrow> if u \<noteq> [] then u else location_href env
      | None \<Rightarrow> location_href env)"

definition redirect :: "options \<Rightarrow> jsval" where
  "redirect opts =
     (case opt_redirect opts of Some r \<Rightarrow> if r \<noteq> [] then Str r else Null | None \<Rightarrow> Null)"

definition flash :: "options \<Rightarrow> bool" where
  "flash opts = opt_flash opts"

definition files :: "options \<Rightarrow> bool" where
  "files opts = (if opt_files opts = True then True else False)"

definition confirm :: "options \<Rightarrow> jsval" where
  "confirm opts =
     (case opt_confirm opts of Some c \<Rightarrow> js_or (Str c) (Bool False) | None \<Rightarrow> Bool False)"

text \<open>\<^verbatim>\<open>get data\<close>: a \<^verbatim>\<open>FormData\<close> with one entry appended per key.\<close>

definition data :: "options \<Rightarrow> request_body" where
  "data opts =
     (let d = (case opt_data opts of Some kvs \<Rightarrow> kvs | None \<Rightarrow> [])
      in MultipartFormData (if length d > 0 then foldl (\<lambda>fd kv. fd @ [kv]) [] d else []))"

fun join_with :: "string \<Rightarrow> string list \<Rightarrow> string" where
  "join_with sep [] = []"
| "join_with sep [x] = x"
| "join_with sep (x # y # ys) = x @ sep @ join_with sep (y # ys)"

definition extractPartials :: "(string \<times> string) list \<Rightarrow> string" where
  "extractPartials upd = join_with ''&'' (map fst upd)"

definition headers :: "options \<Rightarrow> env \<Rightarrow> string \<Rightarrow> (string \<times> string) list" where
  "headers opts env handler =
     [(''X-Requested-With'', ''XMLHttpRequest''),
      (''X-WINTER-REQUEST-HANDLER'', handler),
      (''X-WINTER-REQUEST-PARTIALS'',
         extractPartials (case opt_update opts of Some u \<Rightarrow> u | None \<Rightarrow> []))]
     @ (if flash opts then [(''X-WINTER-REQUEST-FLASH'', ''1'')] else [])
     @ (case xsrf_cookie env of
          Some t \<Rightarrow> if t \<noteq> [] then [(''X-XSRF-TOKEN'', t)] else []
        | None \<Rightarrow> [])"

section \<open>Client-side validation and confirmation\<close>

definition doClientValidation :: "options \<Rightarrow> env \<Rightarrow> nat option \<Rightarrow> event list \<times> bool" where
  "doClientValidation opts env element =
     (if opt_browserValidate opts = True
      then (case form opts env element of
              Some f \<Rightarrow> if checkValidity env f = False then ([ReportValidity f], False) else ([], True)
            | None \<Rightarrow> ([], True))
      else ([], True))"

definition doConfirm :: "options \<Rightarrow> env \<Rightarrow> event list \<times> (bool, unit) promise" where
  "doConfirm opts env =
     (case handleConfirmMessage opts of
        Some f \<Rightarrow>
          ([Callback ''handleConfirmMessage'' [confirm opts]],
           if f [confirm opts] = Bool False then Fulfilled False else Fulfilled True)
      | None \<Rightarrow>
          if listensToEvent env ''ajaxConfirmMessage'' = 0
          then ([ListensToEvent ''ajaxConfirmMessage'', BrowserConfirm (confirm opts)],
                Fulfilled (browser_confirm env (confirm opts)))
          else ([ListensToEvent ''ajaxConfirmMessage'',
                 GlobalPromiseEvent ''ajaxConfirmMessage'' [confirm opts]],
                case globalPromiseEvent env ''ajaxConfirmMessage'' [confirm opts] of
                  Fulfilled v \<Rightarrow> if truthy v then Fulfilled True else Fulfilled False
                | Rejected u \<Rightarrow> Fulfilled False
                | Pending \<Rightarrow> Pending))"

section \<open>The network call\<close>

definition renderError :: "jsval \<Rightarrow> jsval \<Rightarrow> jsval \<Rightarrow> jsval \<Rightarrow> jsval \<Rightarrow> js_error" where
  "renderError message exception file_name line_no trace =
     RenderedError message (js_or exception Null) (js_or file_name Null) (js_or line_no Null)
       (js_or trace (Arr []))"

text \<open>\<^verbatim>\<open>error.message\<close>; a rendered error keeps the message it was built from.\<close>

fun error_message :: "js_error \<Rightarrow> jsval" where
  "error_message (Error m) = Str m"
| "error_message (TypeError m) = Str m"
| "error_message (SyntaxError m) = Str m"
| "error_message (RenderedError m e f l t) = m"

text \<open>\<^verbatim>\<open>s.includes(sub)\<close>\<close>

fun str_includes :: "string \<Rightarrow> string \<Rightarrow> bool" where
  "str_includes [] sub = (sub = [])"
| "str_includes (c # cs) sub = (take (length sub) (c # cs) = sub \<or> str_includes cs sub)"

definition is_json :: "http_response \<Rightarrow> bool" where
  "is_json r = (case content_type r of Some ct \<Rightarrow> str_includes ct ''/json'' | None \<Rightarrow> False)"

text \<open>
  \<^verbatim>\<open>doAjax\<close>: the events, and what its promise settles to. Reading a property of a
  \<^verbatim>\<open>null\<close> error body throws inside the handler, where neither \<^verbatim>\<open>resolve\<close>
  nor \<^verbatim>\<open>reject\<close> is reached: the promise stays pending.
\<close>

definition doAjax :: "options \<Rightarrow> env \<Rightarrow> string \<Rightarrow> event list \<times> (jsval, js_error) promise" where
  "doAjax opts env handler =
     (let u = url opts env; hs = headers opts env handler; b = data opts in
      ([ConsoleLog (Obj (case opt_data opts of Some kvs \<Rightarrow> kvs | None \<Rightarrow> [])), Fetch u hs b],
       case fetch env u hs b of
         NetworkFailure e \<Rightarrow>
           Rejected (renderError (Str (''Unable to retrieve a response from the server: '' @ e))
             Undefined Undefined Undefined Undefined)
       | NoResponse \<Rightarrow> Pending
       | Response r \<Rightarrow>
           if \<not> resp_ok r \<and> resp_status r \<noteq> 406
           then (if is_json r
                 then (case json_body r of
                         Inr d \<Rightarrow>
                           if d = Null \<or> d = Undefined then Pending
                           else Rejected (renderError (get_prop d ''message'')
                                  (get_prop d ''exception'') (get_prop d ''file'')
                                  (get_prop d ''line'') (get_prop d ''trace''))
                       | Inl e \<Rightarrow>
                           Rejected (renderError (Str (''Unable to parse JSON response: '' @ e))
                             Undefined Undefined Undefined Undefined))
                 else (case text_body r of
                         Inr t \<Rightarrow> Rejected (renderError (Str t) Undefined Undefined Undefined Undefined)
                       | Inl e \<Rightarrow>
                           Rejected (renderError (Str (''Unable to process response: '' @ e))
                             Undefined Undefined Undefined Undefined)))
           else (if is_json r
                 then (case json_body r of
                         Inr d \<Rightarrow>
                           Fulfilled (object_assign (object_assign (Obj []) d)
                             (Obj [(''X_WINTER_SUCCESS'', Bool (resp_status r \<noteq> 406)),
                                   (''X_WINTER_RESPONSE_CODE'', Num (int (resp_status r)))]))
                       | Inl e \<Rightarrow>
                           Rejected (renderError (Str (''Unable to parse JSON response: '' @ e))
                             Undefined Undefined Undefined Undefined))
                 else (case text_body r of
                         Inr t \<Rightarrow> Fulfilled (Str t)
                       | Inl e \<Rightarrow>
                           Rejected (renderError (Str (''Unable to process response: '' @ e))
                             Undefined Undefined Undefined Undefined)))))"

section \<open>The update phase\<close>

text \<open>
  The loop of \<^verbatim>\<open>processUpdate\<close> that extracts the partials, from \<^verbatim>\<open>{}\<close>:
  \<^verbatim>\<open>if (key.substr(0, 8) !== 'X_WINTER') partials[key] = value\<close>.
  \<open>extract_partials\<close> is the partial set it ends with, as
  \<^verbatim>\<open>Object.keys(partials)\<close> and \<^verbatim>\<open>Object.entries(partials)\<close> read it.
\<close>

definition extract_loop :: "jsval \<Rightarrow> (string \<times> jsval) list \<Rightarrow> jsval" where
  "extract_loop partials entries =
     foldl (\<lambda>acc kv.
              if take 8 (fst kv) \<noteq> ''X_WINTER'' then set_property (fst kv) (snd kv) acc
              else acc)
       partials entries"

definition extract_partials :: "(string \<times> jsval) list \<Rightarrow> (string \<times> jsval) list" where
  "extract_partials entries = own_entries (extract_loop (Obj []) entries)"

datatype mode = Replace | Append | Prepend

text \<open>
  The head of the loop body of \<^verbatim>\<open>doUpdate\<close>: the selector of a partial and its
  mode. \<^verbatim>\<open>this.options.update[partial]\<close> throws when the options have no
  \<^verbatim>\<open>update\<close>. An empty selector in the mapping is falsy, and the partial name
  stands in for it. A partial that is no key of the mapping but is named as a property
  of \<^verbatim>\<open>Object.prototype\<close> finds that property: a truthy value with no
  \<^verbatim>\<open>substr\<close>, so the call \<^verbatim>\<open>selector.substr(0, 1)\<close> throws.
\<close>

definition selector_mode :: "string \<Rightarrow> mode \<times> string" where
  "selector_mode selector =
     (if take 1 selector = ''@'' then (Append, drop 1 selector)
      else if take 1 selector = ''^'' then (Prepend, drop 1 selector)
      else (Replace, selector))"

definition resolve_selector :: "(string \<times> string) list option \<Rightarrow> string \<Rightarrow> js_error + (mode \<times> string)" where
  "resolve_selector upd partial =
     (case upd of
        None \<Rightarrow> Inl (TypeError ''Cannot read properties of undefined'')
      | Some m \<Rightarrow>
          (case map_of m partial of
             Some sel \<Rightarrow> Inr (selector_mode (if sel \<noteq> [] then sel else partial))
           | None \<Rightarrow>
               if partial \<in> set object_prototype_names
               then Inl (TypeError ''selector.substr is not a function'')
               else Inr (selector_mode partial)))"

fun apply_mode :: "mode \<Rightarrow> string \<Rightarrow> string \<Rightarrow> string" where
  "apply_mode Replace inner content = content"
| "apply_mode Append inner content = inner @ content"
| "apply_mode Prepend inner content = content @ inner"

text \<open>\<^verbatim>\<open>elements.forEach(...)\<close>: the page after it, and the writes made.\<close>

fun update_elements :: "env \<Rightarrow> mode \<Rightarrow> jsval \<Rightarrow> nat list \<Rightarrow> dom \<Rightarrow> dom \<times> event list" where
  "update_elements env m content [] page = (page, [])"
| "update_elements env m content (e # es) page =
     (case update_elements env m content es
             (page(e := apply_mode m (page e) (sanitize env content))) of
        (page', evs) \<Rightarrow>
          (page', SetInnerHTML e (apply_mode m (page e) (sanitize env content)) # evs))"

text \<open>
  The loop of \<^verbatim>\<open>doUpdate\<close>, which runs inside the executor of its promise.
  \<open>resolved\<close> tells whether \<^verbatim>\<open>resolve()\<close> has been called: it is called at the
  end of every iteration, and the loop goes on after it. An exception (no
  \<^verbatim>\<open>update\<close> option, a selector the page rejects) ends the loop, and rejects the
  promise unless it is resolved already. An empty partial set leaves it pending.
\<close>

fun doUpdate_loop :: "options \<Rightarrow> env \<Rightarrow> (string \<times> jsval) list \<Rightarrow> dom \<Rightarrow> bool
    \<Rightarrow> (unit, unit) promise \<times> dom \<times> event list" where
  "doUpdate_loop opts env [] page resolved =
     (if resolved then Fulfilled () else Pending, page, [])"
| "doUpdate_loop opts env (pc # rest) page resolved =
     (case resolve_selector (opt_update opts) (fst pc) of
        Inl e \<Rightarrow> (if resolved then Fulfilled () else Rejected (), page, [])
      | Inr ms \<Rightarrow>
          (case querySelectorAll env page (snd ms) of
             Inl e \<Rightarrow>
               (if resolved then Fulfilled () else Rejected (), page, [QuerySelectorAll (snd ms)])
           | Inr elements \<Rightarrow>
               (case (if length elements > 0
                      then update_elements env (fst ms) (snd pc) elements page
                      else (page, [])) of
                  (page1, evs1) \<Rightarrow>
                    (case doUpdate_loop opts env rest page1 True of
                       (p, page2, evs2) \<Rightarrow>
                         (p, page2, QuerySelectorAll (snd ms) # evs1 @ evs2)))))"

definition doUpdate :: "options \<Rightarrow> env \<Rightarrow> (string \<times> jsval) list \<Rightarrow> dom
    \<Rightarrow> (unit, unit) promise \<times> dom \<times> event list" where
  "doUpdate opts env partials page = doUpdate_loop opts env partials page False"

text \<open>
  \<^verbatim>\<open>processUpdate\<close>: what its promise settles to, the page after it, and the events.
  The frame callback of \<^verbatim>\<open>requestAnimationFrame\<close> runs.
\<close>

definition processUpdate :: "options \<Rightarrow> env \<Rightarrow> dom \<Rightarrow> jsval
    \<Rightarrow> (unit, unit) promise \<times> dom \<times> event list" where
  "processUpdate opts env page response =
     (let pre = callback_events ''beforeUpdate'' (beforeUpdate opts) [response] in
      if returns_false (beforeUpdate opts) [response] then (Rejected (), page, pre)
      else case object_entries response of
             Inl e \<Rightarrow> (Rejected (), page, pre)
           | Inr entries \<Rightarrow>
               if length (extract_partials entries) = 0 then (Fulfilled (), page, pre)
               else (case globalPromiseEvent env ''ajaxBeforeUpdate'' [response] of
                       Fulfilled v \<Rightarrow>
                         (case doUpdate opts env (extract_partials entries) page of
                            (Fulfilled u, page', evs) \<Rightarrow>
                              (Fulfilled (), page',
                               pre @ [GlobalPromiseEvent ''ajaxBeforeUpdate'' [response]] @ evs
                                 @ [RequestAnimationFrame])
                          | (Rejected u, page', evs) \<Rightarrow>
                              (Rejected (), page',
                               pre @ [GlobalPromiseEvent ''ajaxBeforeUpdate'' [response]] @ evs)
                          | (Pending, page', evs) \<Rightarrow>
                              (Pending, page',
                               pre @ [GlobalPromiseEvent ''ajaxBeforeUpdate'' [response]] @ evs))
                     | Rejected u \<Rightarrow>
                         (Rejected (), page, pre @ [GlobalPromiseEvent ''ajaxBeforeUpdate'' [response]])
                     | Pending \<Rightarrow>
                         (Pending, page, pre @ [GlobalPromiseEvent ''ajaxBeforeUpdate'' [response]])))"

section \<open>Outcome dispatch\<close>

definition processRedirect :: "options \<Rightarrow> env \<Rightarrow> jsval \<Rightarrow> event list" where
  "processRedirect opts env target =
     (let pre = callback_events ''handleRedirectResponse'' (handleRedirectResponse opts) [target] in
      if returns_false (handleRedirectResponse opts) [target] then pre
      else if globalEvent env ''ajaxRedirect'' [target] = Bool False
      then pre @ [GlobalEvent ''ajaxRedirect'' [target]]
      else pre @ [GlobalEvent ''ajaxRedirect'' [target], AddPopstateListener, LocationAssign target])"

definition processErrorMessage :: "options \<Rightarrow> env \<Rightarrow> jsval \<Rightarrow> event list" where
  "processErrorMessage opts env message =
     (let pre = callback_events ''handleErrorMessage'' (handleErrorMessage opts) [message] in
      if returns_false (handleErrorMessage opts) [message] then pre
      else if globalEvent env ''ajaxErrorMessage'' [message] = Bool False
      then pre @ [GlobalEvent ''ajaxErrorMessage'' [message]]
      else pre @ [GlobalEvent ''ajaxErrorMessage'' [message], Alert message])"

definition processFlashMessages :: "options \<Rightarrow> env \<Rightarrow> jsval \<Rightarrow> event list" where
  "processFlashMessages opts env messages =
     (let pre = callback_events ''handleFlashMessages'' (handleFlashMessages opts) [messages] in
      if returns_false (handleFlashMessages opts) [messages] then pre
      else pre @ [GlobalEvent ''ajaxFlashMessages'' [messages]])"

definition processValidationErrors :: "options \<Rightarrow> env \<Rightarrow> nat option \<Rightarrow> jsval \<Rightarrow> event list" where
  "processValidationErrors opts env element field_errors =
     (let f = form_value (form opts env element);
          pre = callback_events ''handleValidationErrors'' (handleValidationErrors opts) [f, field_errors]
      in if returns_false (handleValidationErrors opts) [f, field_errors] then pre
         else pre @ [GlobalEvent ''ajaxValidationErrors'' [f, field_errors]])"

text \<open>
  \<^verbatim>\<open>processResponse\<close>, the success path. \<^verbatim>\<open>processAssets\<close> is called on the
  request but is no method of \<^verbatim>\<open>Request.js\<close>; the call is recorded.
\<close>

definition processResponse :: "options \<Rightarrow> env \<Rightarrow> jsval \<Rightarrow> event list" where
  "processResponse opts env response =
     (if truthy (js_or (get_prop response ''X_WINTER_REDIRECT'') (redirect opts))
      then processRedirect opts env (js_or (get_prop response ''X_WINTER_REDIRECT'') (redirect opts))
      else (if flash opts \<and> truthy (get_prop response ''X_WINTER_FLASH_MESSAGES'')
            then processFlashMessages opts env (get_prop response ''X_WINTER_FLASH_MESSAGES'')
            else [])
           @ (if truthy (get_prop response ''X_WINTER_ASSETS'')
              then [ProcessAssets (get_prop response ''X_WINTER_ASSETS'')]
              else []))"

text \<open>
  \<^verbatim>\<open>processError\<close>: \<open>Inl\<close> is an \<^verbatim>\<open>Error\<close> instance, \<open>Inr\<close> the response of
  a soft failure.
\<close>

definition processError :: "options \<Rightarrow> env \<Rightarrow> nat option \<Rightarrow> js_error + jsval \<Rightarrow> event list" where
  "processError opts env element err =
     (case err of
        Inl e \<Rightarrow> processErrorMessage opts env (error_message e)
      | Inr r \<Rightarrow>
          (if truthy (get_prop r ''X_WINTER_ERROR_FIELDS'')
           then processValidationErrors opts env element (get_prop r ''X_WINTER_ERROR_FIELDS'')
           else [])
          @ (if truthy (get_prop r ''X_WINTER_ERROR_MESSAGE'')
             then processErrorMessage opts env (get_prop r ''X_WINTER_ERROR_MESSAGE'')
             else []))"

section \<open>The lifecycle\<close>

text \<open>
  The handler the constructor gives the fulfilment of \<^verbatim>\<open>processUpdate\<close>: the
  dispatch phase.
\<close>

definition dispatch :: "options \<Rightarrow> env \<Rightarrow> nat option \<Rightarrow> jsval \<Rightarrow> event list" where
  "dispatch opts env element response =
     (if get_prop response ''X_WINTER_SUCCESS'' = Bool False
      then processError opts env element (Inr response)
      else processResponse opts env response)"

text \<open>
  The handler the constructor gives the fulfilment of \<^verbatim>\<open>doAjax\<close>: the update
  phase, and the dispatch phase when the update promise is fulfilled. A rejected update
  promise has no handler.
\<close>

definition on_response :: "options \<Rightarrow> env \<Rightarrow> nat option \<Rightarrow> dom \<Rightarrow> jsval \<Rightarrow> event list \<times> dom" where
  "on_response opts env element page response =
     (case processUpdate opts env page response of
        (Fulfilled u, page', evs) \<Rightarrow> (evs @ dispatch opts env element response, page')
      | (Rejected u, page', evs) \<Rightarrow> (evs, page')
      | (Pending, page', evs) \<Rightarrow> (evs, page'))"

text \<open>
  \<^verbatim>\<open>this.doAjax().then(...)\<close> with its two handlers, as both branches of the
  constructor have it.
\<close>

definition send :: "options \<Rightarrow> env \<Rightarrow> nat option \<Rightarrow> string \<Rightarrow> dom \<Rightarrow> event list \<times> dom" where
  "send opts env element handler page =
     (case doAjax opts env handler of
        (evs, Fulfilled response) \<Rightarrow>
          (case on_response opts env element page response of
             (evs', page') \<Rightarrow> (evs @ evs', page'))
      | (evs, Rejected error) \<Rightarrow> (evs @ processError opts env element (Inl error), page)
      | (evs, Pending) \<Rightarrow> (evs, page))"

text \<open>
  The constructor: \<open>Inl\<close> the exception it throws, else the events of the whole
  lifecycle and the page it leaves.
\<close>

definition request_constructor :: "env \<Rightarrow> dom \<Rightarrow> jsval \<Rightarrow> jsval \<Rightarrow> options
    \<Rightarrow> js_error + (event list \<times> dom)" where
  "request_constructor env page element handler opts0 =
     (case checkRequest element handler of
        Inl e \<Rightarrow> Inl e
      | Inr h \<Rightarrow>
          Inr (let opts = setupListeners env opts0;
                   el = element_of element;
                   setup = [GlobalEvent ''ajaxSetup'' []] in
               if \<not> truthy (globalEvent env ''ajaxSetup'' []) then (setup, page)
               else case doClientValidation opts env el of
                      (vevs, False) \<Rightarrow> (setup @ vevs, page)
                    | (vevs, True) \<Rightarrow>
                        if truthy (confirm opts)
                        then (case doConfirm opts env of
                                (cevs, Fulfilled True) \<Rightarrow>
                                  (case send opts env el h page of
                                     (evs, page') \<Rightarrow> (setup @ vevs @ cevs @ evs, page'))
                              | (cevs, Fulfilled False) \<Rightarrow> (setup @ vevs @ cevs, page)
                              | (cevs, Rejected u) \<Rightarrow> (setup @ vevs @ cevs, page)
                              | (cevs, Pending) \<Rightarrow> (setup @ vevs @ cevs, page))
                        else (case send opts env el h page of
                                (evs, page') \<Rightarrow> (setup @ vevs @ evs, page'))))"

section \<open>Sample surroundings\<close>

text \<open>
  A page with no listener on any hook: every broadcast passes, the browser confirms,
  forms are valid, the sanitizer keeps a string as it is, \<open>matches\<close> tells which
  elements a selector selects, and \<^verbatim>\<open>fetch\<close> answers with \<open>r\<close>.
\<close>

definition sample_env :: "fetch_result \<Rightarrow> (string \<Rightarrow> nat list) \<Rightarrow> env" where
  "sample_env r matches =
     \<lparr>setupListeners = (\<lambda>opts. opts),
      globalEvent = (\<lambda>name args. Bool True),
      globalPromiseEvent = (\<lambda>name args. Fulfilled (Bool True)),
      listensToEvent = (\<lambda>name. 0),
      browser_confirm = (\<lambda>message. True),
      fetch = (\<lambda>u hs b. r),
      closest_form = (\<lambda>e. None),
      checkValidity = (\<lambda>f. True),
      querySelectorAll = (\<lambda>page selector. Inr (matches selector)),
      sanitize = (\<lambda>content. case content of Str s \<Rightarrow> s | _ \<Rightarrow> []),
      location_href = ''/'',
      xsrf_cookie = None\<rparr>"

text \<open>A page on which no selector selects anything.\<close>

definition selects_nothing :: "string \<Rightarrow> nat list" where
  "selects_nothing selector = []"

text \<open>A page on which \<^verbatim>\<open>foo\<close> selects the element 1.\<close>

definition selects_foo :: "string \<Rightarrow> nat list" where
  "selects_foo selector = (if selector = ''foo'' then [1] else [])"

text \<open>A callback that returns the literal \<^verbatim>\<open>false\<close>.\<close>

definition returning_false :: callback where
  "returning_false args = Bool False"

definition blank_page :: dom where
  "blank_page = (\<lambda>e. [])"

definition json_response :: "nat \<Rightarrow> jsval \<Rightarrow> http_response" where
  "json_response code body =
     \<lparr>resp_ok = (200 \<le> code \<and> code \<le> 299), resp_status = code,
      content_type = Some ''application/json'', json_body = Inr body,
      text_body = Inl ''body used already''\<rparr>"

definition text_response :: "nat \<Rightarrow> string \<Rightarrow> http_response" where
  "text_response code body =
     \<lparr>resp_ok = (200 \<le> code \<and> code \<le> 299), resp_status = code,
      content_type = Some ''text/html'', json_body = Inl ''SyntaxError'',
      text_body = Inr body\<rparr>"

text \<open>
  The body of the soft failure of the specification:
  \<^verbatim>\<open>{"foo": "<p>hi</p>", "X_WINTER_ERROR_FIELDS": {"name": ["required"]}}\<close>.
\<close>

definition soft_failure_body :: jsval where
  "soft_failure_body =
     Obj [(''foo'', Str ''<p>hi</p>''),
          (''X_WINTER_ERROR_FIELDS'', Obj [(''name'', Arr [Str ''required''])])]"

section \<open>Reading a trace\<close>

text \<open>A network call.\<close>

fun is_fetch :: "event \<Rightarrow> bool" where
  "is_fetch (Fetch u hs b) = True"
| "is_fetch ev = False"

text \<open>
  The confirmation paths other than the per-request callback: the query for listeners
  of the confirmation hook, its broadcast, and the \<^verbatim>\<open>confirm\<close> of the browser.
\<close>

fun is_global_confirm :: "event \<Rightarrow> bool" where
  "is_global_confirm (ListensToEvent name) = (name = ''ajaxConfirmMessage'')"
| "is_global_confirm (GlobalPromiseEvent name args) = (name = ''ajaxConfirmMessage'')"
| "is_global_confirm (BrowserConfirm message) = True"
| "is_global_confirm ev = False"

text \<open>Flash-message and asset handling.\<close>

fun is_flash_or_asset :: "event \<Rightarrow> bool" where
  "is_flash_or_asset (Callback name args) = (name = ''handleFlashMessages'')"
| "is_flash_or_asset (GlobalEvent name args) = (name = ''ajaxFlashMessages'')"
| "is_flash_or_asset (ProcessAssets assets) = True"
| "is_flash_or_asset ev = False"

text \<open>A navigation: \<^verbatim>\<open>window.location.assign\<close>.\<close>

fun is_navigation :: "event \<Rightarrow> bool" where
  "is_navigation (LocationAssign target) = True"
| "is_navigation ev = False"

text \<open>A query of the page, or a write to it.\<close>

fun is_page_access :: "event \<Rightarrow> bool" where
  "is_page_access (QuerySelectorAll selector) = True"
| "is_page_access (SetInnerHTML e content) = True"
| "is_page_access ev = False"

section \<open>Evaluation\<close>

declare selects_nothing_def [simp] selects_foo_def [simp] returning_false_def [simp]

lemmas eval_defs =
  request_constructor_def checkRequest_def handler_matches_def handler_rx_def is_word_char_def
  sample_env_def no_options_def doClientValidation_def confirm_def send_def doAjax_def
  json_response_def text_response_def is_json_def object_assign_def on_response_def
  processUpdate_def callback_events_def returns_false_def extract_partials_def doUpdate_def
  extract_loop_def set_property_def object_prototype_names_def selector_mode_def
  resolve_selector_def url_def headers_def data_def flash_def files_def extractPartials_def
  dispatch_def processError_def processResponse_def processValidationErrors_def
  processErrorMessage_def processRedirect_def processFlashMessages_def form_def form_value_def
  redirect_def js_or_def doConfirm_def blank_page_def renderError_def soft_failure_body_def
  string_of_nat.simps digit_char_def

section \<open>The handler-name check\<close>

lemma match_star_nonempty: "match_star a s \<noteq> []"
  by (induction s) auto

lemma dropWhile_in_match_star: "dropWhile (atom_ok a) s \<in> set (match_star a s)"
  by (induction s) auto

lemma match_star_stop:
  "t \<in> set (match_star a s) \<Longrightarrow> t = [] \<or> \<not> atom_ok a (hd t) \<Longrightarrow> t = dropWhile (atom_ok a) s"
  by (induction s) (auto split: if_splits)

lemma atom_ok_WordChar: "atom_ok WordChar = is_word_char"
  by (rule ext) simp

lemma match_two_colons:
  "match_times 2 (Lit CHR '':'') t = (if take 2 t = ''::'' then [drop 2 t] else [])"
proof (cases t)
  case Nil
  then show ?thesis by (simp add: numeral_2_eq_2)
next
  case (Cons c cs)
  then show ?thesis by (cases cs) (auto simp: numeral_2_eq_2)
qed

lemma tail_matches:
  "rx_match (Seq (Atom (Lit CHR ''o'')) (Star (Lit CHR ''n''))) t \<noteq> [] \<longleftrightarrow> take 1 t = ''o''"
  by (cases t) (auto simp: match_star_nonempty)

lemma namespace_matches:
  "set (rx_match (Seq (Plus WordChar) (Times 2 (Lit CHR '':''))) s) =
     (if takeWhile is_word_char s \<noteq> [] \<and> take 2 (dropWhile is_word_char s) = ''::''
      then {drop 2 (dropWhile is_word_char s)} else {})"
proof (cases s)
  case Nil
  then show ?thesis by simp
next
  case (Cons c cs)
  show ?thesis
  proof (cases "is_word_char c")
    case False
    with Cons show ?thesis by simp
  next
    case True
    let ?d = "dropWhile is_word_char cs"
    have colon: "\<not> is_word_char CHR '':''" by (simp add: is_word_char_def)
    have stop: "t = ?d"
      if "t \<in> set (match_star WordChar cs)" and "take 2 t = ''::''" for t
    proof -
      from that(2) have "t \<noteq> []" and "hd t = CHR '':''" by (cases t; auto)+
      with colon have "t = [] \<or> \<not> atom_ok WordChar (hd t)" by simp
      with match_star_stop [OF that(1)] show ?thesis by (simp add: atom_ok_WordChar)
    qed
    have mem: "?d \<in> set (match_star WordChar cs)"
      using dropWhile_in_match_star [of WordChar cs] by (simp add: atom_ok_WordChar)
    have lhs: "set (rx_match (Seq (Plus WordChar) (Times 2 (Lit CHR '':''))) s) =
        (\<Union>t \<in> set (match_star WordChar cs). if take 2 t = ''::'' then {drop 2 t} else {})"
      using Cons True by (simp add: match_two_colons)
    have rhs: "(\<Union>t \<in> set (match_star WordChar cs). if take 2 t = ''::'' then {drop 2 t} else {}) =
        (if take 2 ?d = ''::'' then {drop 2 ?d} else {})"
    proof (cases "take 2 ?d = ''::''")
      case yes: True
      have "(\<Union>t \<in> set (match_star WordChar cs). if take 2 t = ''::'' then {drop 2 t} else {}) = {drop 2 ?d}"
      proof (rule equalityI; rule subsetI)
        fix x assume "x \<in> (\<Union>t \<in> set (match_star WordChar cs). if take 2 t = ''::'' then {drop 2 t} else {})"
        then obtain t where t: "t \<in> set (match_star WordChar cs)" "take 2 t = ''::''" "x = drop 2 t"
          by (auto split: if_splits)
        with stop [OF t(1,2)] show "x \<in> {drop 2 ?d}" by simp
      next
        fix x assume "x \<in> {drop 2 ?d}"
        with mem yes show "x \<in> (\<Union>t \<in> set (match_star WordChar cs). if take 2 t = ''::'' then {drop 2 t} else {})"
          by (intro UN_I [of ?d]) simp_all
      qed
      with yes show ?thesis by simp
    next
      case no: False
      have "(if take 2 t = ''::'' then {drop 2 t} else {}) = {}" if "t \<in> set (match_star WordChar cs)" for t
        using stop [OF that] no by (cases "take 2 t = ''::''") auto
      then have "(\<Union>t \<in> set (match_star WordChar cs). if take 2 t = ''::'' then {drop 2 t} else {}) = {}"
        by blast
      with no show ?thesis by simp
    qed
    from Cons True have "takeWhile is_word_char s \<noteq> []" and "dropWhile is_word_char s = ?d"
      by simp_all
    with lhs rhs show ?thesis by simp
  qed
qed

lemma opt_seq:
  "rx_match (Seq (Opt r1) r2) s \<noteq> [] \<longleftrightarrow>
     (\<exists>t \<in> set (rx_match r1 s). rx_match r2 t \<noteq> []) \<or> rx_match r2 s \<noteq> []"
  by auto

lemma handler_matches_iff:
  "handler_matches s \<longleftrightarrow>
     take 1 s = ''o'' \<or>
     (takeWhile is_word_char s \<noteq> [] \<and> take 2 (dropWhile is_word_char s) = ''::'' \<and>
      take 1 (drop 2 (dropWhile is_word_char s)) = ''o'')"
  unfolding handler_matches_def handler_rx_def opt_seq tail_matches namespace_matches
  by (simp split: if_splits) blast

lemma on_name_take: "on_name t \<Longrightarrow> take 1 t = ''o''"
  unfolding on_name_def by (cases t) auto

lemma spec_format_accepted: "spec_handler_format s \<Longrightarrow> handler_matches s"
  unfolding handler_matches_iff spec_handler_format_def
  using on_name_take by blast

text \<open>
  Claim C3. A handler name of the format \<^verbatim>\<open>[namespace::]on<Name>\<close> passes the
  structural check, and every other name is to fail construction. The pattern of the
  source ends in \<^verbatim>\<open>on*\<close>, an \<^verbatim>\<open>o\<close> followed by any number of \<^verbatim>\<open>n\<close>,
  so a name that merely starts with \<^verbatim>\<open>o\<close> passes as well: constructed with the
  handler \<^verbatim>\<open>oops\<close>, which is not of the format, the request throws nothing, runs
  the setup hook and issues the network call.
\<close>

theorem handler_oops_accepted:
  "request_constructor (sample_env NoResponse selects_nothing) blank_page Undefined
       (Str ''oops'') no_options =
     Inr ([GlobalEvent ''ajaxSetup'' [], ConsoleLog (Obj []),
           Fetch ''/''
             [(''X-Requested-With'', ''XMLHttpRequest''),
              (''X-WINTER-REQUEST-HANDLER'', ''oops''),
              (''X-WINTER-REQUEST-PARTIALS'', [])]
             (MultipartFormData [])],
          blank_page)
   \<and> spec_handler_format ''oops'' = False"
  by (simp add: eval_defs spec_handler_format_def on_name_def)

section \<open>The element check\<close>

text \<open>
  Claim C10. The constructor throws the element error exactly when the element is
  neither \<^verbatim>\<open>undefined\<close> nor an \<^verbatim>\<open>Element\<close> instance; \<^verbatim>\<open>null\<close> is such a
  value. The error is the result of the constructor: no hook has run and no network
  call has been made.
\<close>

theorem element_error_iff:
  "request_constructor env page element handler opts0 =
       Inl (Error ''The element provided must be an Element instance'')
   \<longleftrightarrow> element \<noteq> Undefined \<and> \<not> instanceof_Element element"
  by (auto simp: request_constructor_def checkRequest_def invalid_handler_message_def
      split: jsval.splits sum.splits)

theorem element_error_iff_witness:
  "request_constructor (sample_env NoResponse selects_nothing) blank_page Null
       (Str ''onSave'') no_options =
     Inl (Error ''The element provided must be an Element instance'')"
  using element_error_iff [of "sample_env NoResponse selects_nothing" blank_page Null
      "Str ''onSave''" no_options]
  by simp

section \<open>The soft failure\<close>

text \<open>
  Claim C1. A response of status 406 with the body
  \<^verbatim>\<open>{"foo": "<p>hi</p>", "X_WINTER_ERROR_FIELDS": {"name": ["required"]}}\<close>
  is to update the partial \<^verbatim>\<open>foo\<close>, then dispatch validation-error handling, and
  never take the success path. With options that have no \<^verbatim>\<open>update\<close> mapping
  (here: no options at all) the loop of \<^verbatim>\<open>doUpdate\<close> throws on
  \<^verbatim>\<open>this.options.update[partial]\<close> before it queries the page: the lifecycle ends
  after the pre-update hook, with no query, no write to the page and no
  validation-error dispatch.
\<close>

theorem soft_failure_without_update_option:
  "request_constructor
       (sample_env (Response (json_response 406 soft_failure_body))
          selects_foo)
       blank_page Undefined (Str ''onSave'') no_options =
     Inr ([GlobalEvent ''ajaxSetup'' [], ConsoleLog (Obj []),
           Fetch ''/''
             [(''X-Requested-With'', ''XMLHttpRequest''),
              (''X-WINTER-REQUEST-HANDLER'', ''onSave''),
              (''X-WINTER-REQUEST-PARTIALS'', [])]
             (MultipartFormData []),
           GlobalPromiseEvent ''ajaxBeforeUpdate''
             [Obj [(''foo'', Str ''<p>hi</p>''),
                   (''X_WINTER_ERROR_FIELDS'', Obj [(''name'', Arr [Str ''required''])]),
                   (''X_WINTER_SUCCESS'', Bool False),
                   (''X_WINTER_RESPONSE_CODE'', Num 406)]]],
          blank_page)"
  by (simp add: eval_defs)

text \<open>
  With an \<^verbatim>\<open>update\<close> mapping, even an empty one, the same response does what the
  claim says: the partial is written to the element that \<^verbatim>\<open>foo\<close> selects, then
  the validation errors are dispatched, and nothing of the success path runs.
\<close>

lemma soft_failure_with_update_option:
  "request_constructor
       (sample_env (Response (json_response 406 soft_failure_body))
          selects_foo)
       blank_page Undefined (Str ''onSave'') (no_options\<lparr>opt_update := Some []\<rparr>) =
     Inr ([GlobalEvent ''ajaxSetup'' [], ConsoleLog (Obj []),
           Fetch ''/''
             [(''X-Requested-With'', ''XMLHttpRequest''),
              (''X-WINTER-REQUEST-HANDLER'', ''onSave''),
              (''X-WINTER-REQUEST-PARTIALS'', [])]
             (MultipartFormData []),
           GlobalPromiseEvent ''ajaxBeforeUpdate''
             [Obj [(''foo'', Str ''<p>hi</p>''),
                   (''X_WINTER_ERROR_FIELDS'', Obj [(''name'', Arr [Str ''required''])]),
                   (''X_WINTER_SUCCESS'', Bool False),
                   (''X_WINTER_RESPONSE_CODE'', Num 406)]],
           QuerySelectorAll ''foo'', SetInnerHTML 1 ''<p>hi</p>'', RequestAnimationFrame,
           GlobalEvent ''ajaxValidationErrors''
             [Null, Obj [(''name'', Arr [Str ''required''])]]],
          blank_page(1 := ''<p>hi</p>''))"
  by (simp add: eval_defs)

section \<open>Redirects\<close>


text \<open>
  Claim C2. When the payload carries a truthy \<^verbatim>\<open>X_WINTER_REDIRECT\<close>, or the
  options a non-empty \<^verbatim>\<open>redirect\<close>, \<^verbatim>\<open>processResponse\<close> is
  \<^verbatim>\<open>processRedirect\<close> of that URL and nothing else: there is no flash-message
  and no asset handling, and there is exactly one navigation, to that URL, unless
  \<^verbatim>\<open>handleRedirectResponse\<close> returns the literal \<^verbatim>\<open>false\<close> or the
  \<^verbatim>\<open>ajaxRedirect\<close> hook returns \<^verbatim>\<open>false\<close>, and then there is none.
\<close>

theorem redirect_exclusive:
  assumes "truthy (get_prop response ''X_WINTER_REDIRECT'') \<or> truthy (redirect opts)"
  shows "processResponse opts env response =
           processRedirect opts env (js_or (get_prop response ''X_WINTER_REDIRECT'') (redirect opts))
       \<and> filter is_flash_or_asset (processResponse opts env response) = []
       \<and> filter is_navigation (processResponse opts env response) =
           (if returns_false (handleRedirectResponse opts)
                 [js_or (get_prop response ''X_WINTER_REDIRECT'') (redirect opts)]
               \<or> globalEvent env ''ajaxRedirect''
                    [js_or (get_prop response ''X_WINTER_REDIRECT'') (redirect opts)] = Bool False
            then []
            else [LocationAssign (js_or (get_prop response ''X_WINTER_REDIRECT'') (redirect opts))])"
proof -
  let ?target = "js_or (get_prop response ''X_WINTER_REDIRECT'') (redirect opts)"
  from assms have t: "truthy ?target" by (auto simp: js_or_def)
  then have eq: "processResponse opts env response = processRedirect opts env ?target"
    by (simp add: processResponse_def)
  have fl: "filter is_flash_or_asset (processRedirect opts env ?target) = []"
    by (simp add: processRedirect_def callback_events_def Let_def split: option.splits)
  have nav: "filter is_navigation (processRedirect opts env ?target) =
           (if returns_false (handleRedirectResponse opts) [?target]
               \<or> globalEvent env ''ajaxRedirect'' [?target] = Bool False
            then [] else [LocationAssign ?target])"
    by (simp add: processRedirect_def callback_events_def Let_def split: option.splits)
  from eq fl nav show ?thesis by simp
qed

theorem redirect_exclusive_witness:
  "truthy (get_prop (Obj [(''X_WINTER_REDIRECT'', Str ''/done'')]) ''X_WINTER_REDIRECT'')
   \<and> processResponse no_options (sample_env NoResponse selects_nothing)
        (Obj [(''X_WINTER_REDIRECT'', Str ''/done'')]) =
       [GlobalEvent ''ajaxRedirect'' [Str ''/done''], AddPopstateListener,
        LocationAssign (Str ''/done'')]
   \<and> filter is_navigation (processResponse no_options (sample_env NoResponse selects_nothing)
        (Obj [(''X_WINTER_REDIRECT'', Str ''/done'')])) = [LocationAssign (Str ''/done'')]
   \<and> filter is_navigation
        (processResponse (no_options\<lparr>handleRedirectResponse := Some returning_false\<rparr>)
           (sample_env NoResponse selects_nothing)
           (Obj [(''X_WINTER_REDIRECT'', Str ''/done'')])) = []"
proof -
  let ?r = "Obj [(''X_WINTER_REDIRECT'', Str ''/done'')]"
  let ?env = "sample_env NoResponse selects_nothing"
  have h: "truthy (get_prop ?r ''X_WINTER_REDIRECT'') \<or> truthy (redirect opts)" for opts
    by simp
  let ?veto = "no_options\<lparr>handleRedirectResponse := Some returning_false\<rparr>"
  have t: "js_or (get_prop ?r ''X_WINTER_REDIRECT'') (redirect opts) = Str ''/done''" for opts
    by (simp add: js_or_def)
  have e: "processRedirect no_options ?env (Str ''/done'') =
       [GlobalEvent ''ajaxRedirect'' [Str ''/done''], AddPopstateListener,
        LocationAssign (Str ''/done'')]"
    by (simp add: eval_defs)
  have pass: "returns_false (handleRedirectResponse no_options) [Str ''/done''] = False"
    "(globalEvent ?env ''ajaxRedirect'' [Str ''/done''] = Bool False) = False"
    by (simp_all add: returns_false_def no_options_def sample_env_def)
  have veto: "returns_false (handleRedirectResponse ?veto) [Str ''/done''] = True"
    by (simp add: returns_false_def)
  note pass_case = redirect_exclusive [OF h, of no_options ?env, unfolded t pass]
  note veto_case = redirect_exclusive [OF h, of ?veto ?env, unfolded t veto]
  have a: "processResponse no_options ?env ?r = processRedirect no_options ?env (Str ''/done'')"
    using pass_case by blast
  have b: "filter is_navigation (processResponse no_options ?env ?r) = [LocationAssign (Str ''/done'')]"
    using pass_case by auto
  have c: "filter is_navigation (processResponse ?veto ?env ?r) = []"
    using veto_case by auto
  from a b c e show ?thesis by simp
qed

section \<open>A veto of the update\<close>


text \<open>
  Claim C4. When the \<^verbatim>\<open>beforeUpdate\<close> callback returns the literal
  \<^verbatim>\<open>false\<close> for a response, the promise of \<^verbatim>\<open>processUpdate\<close> is rejected,
  the page is as it was and the call of the callback is the only event: the page is
  neither queried nor written to. The handler of the response ends there, so neither
  \<^verbatim>\<open>processResponse\<close> nor \<^verbatim>\<open>processError\<close> runs, and the lifecycle of a
  request whose network call resolves with that response ends with the callback.
\<close>

theorem beforeUpdate_false_aborts:
  assumes "beforeUpdate opts = Some f" and "f [response] = Bool False"
  shows "processUpdate opts env page response =
           (Rejected (), page, [Callback ''beforeUpdate'' [response]])
       \<and> on_response opts env element page response =
           ([Callback ''beforeUpdate'' [response]], page)
       \<and> (doAjax opts env handler = (evs, Fulfilled response) \<longrightarrow>
            send opts env element handler page =
              (evs @ [Callback ''beforeUpdate'' [response]], page))"
  using assms
  by (simp add: processUpdate_def on_response_def send_def callback_events_def returns_false_def)

theorem beforeUpdate_false_aborts_witness:
  "beforeUpdate (no_options\<lparr>opt_update := Some [], beforeUpdate := Some returning_false\<rparr>)
     = Some returning_false
   \<and> returning_false
        [Obj [(''foo'', Str ''<p>hi</p>''), (''X_WINTER_SUCCESS'', Bool True),
              (''X_WINTER_RESPONSE_CODE'', Num 200)]] = Bool False
   \<and> send (no_options\<lparr>opt_update := Some [], beforeUpdate := Some returning_false\<rparr>)
        (sample_env (Response (json_response 200 (Obj [(''foo'', Str ''<p>hi</p>'')])))
           selects_foo)
        None ''onSave'' blank_page =
       ([ConsoleLog (Obj []),
         Fetch ''/''
           [(''X-Requested-With'', ''XMLHttpRequest''),
            (''X-WINTER-REQUEST-HANDLER'', ''onSave''),
            (''X-WINTER-REQUEST-PARTIALS'', [])]
           (MultipartFormData []),
         Callback ''beforeUpdate''
           [Obj [(''foo'', Str ''<p>hi</p>''), (''X_WINTER_SUCCESS'', Bool True),
                 (''X_WINTER_RESPONSE_CODE'', Num 200)]]],
        blank_page)"
proof -
  let ?opts = "no_options\<lparr>opt_update := Some [], beforeUpdate := Some returning_false\<rparr>"
  let ?env = "sample_env (Response (json_response 200 (Obj [(''foo'', Str ''<p>hi</p>'')])))
           selects_foo"
  let ?response = "Obj [(''foo'', Str ''<p>hi</p>''), (''X_WINTER_SUCCESS'', Bool True),
              (''X_WINTER_RESPONSE_CODE'', Num 200)]"
  have h1: "beforeUpdate ?opts = Some returning_false" by simp
  have h2: "returning_false [?response] = Bool False" by simp
  have h3: "doAjax ?opts ?env ''onSave'' =
      ([ConsoleLog (Obj []),
         Fetch ''/''
           [(''X-Requested-With'', ''XMLHttpRequest''),
            (''X-WINTER-REQUEST-HANDLER'', ''onSave''),
            (''X-WINTER-REQUEST-PARTIALS'', [])]
           (MultipartFormData [])], Fulfilled ?response)"
    by (simp add: eval_defs)
  show ?thesis
    using h1 h2 h3 beforeUpdate_false_aborts [OF h1 h2, where env = ?env and page = blank_page
        and element = None and handler = "''onSave''"]
    by simp
qed

section \<open>Responses that are not JSON\<close>

text \<open>
  For a response classified as a success (status OK or 406) whose body is not JSON and
  whose text can be read, \<^verbatim>\<open>doAjax\<close> resolves with the text itself, and the
  handler of the response is given that text.
\<close>

lemma text_resolved_as_is:
  assumes "fetch env (url opts env) (headers opts env handler) (data opts) = Response r"
    and "resp_ok r \<or> resp_status r = 406"
    and "\<not> is_json r"
    and "text_body r = Inr t"
  shows "snd (doAjax opts env handler) = Fulfilled (Str t)
       \<and> send opts env element handler page =
           (case on_response opts env element page (Str t) of
              (evs, page') \<Rightarrow> (fst (doAjax opts env handler) @ evs, page'))"
proof -
  from assms have a: "snd (doAjax opts env handler) = Fulfilled (Str t)"
    by (auto simp: doAjax_def Let_def)
  then have "send opts env element handler page =
           (case on_response opts env element page (Str t) of
              (evs, page') \<Rightarrow> (fst (doAjax opts env handler) @ evs, page'))"
    by (cases "doAjax opts env handler") (simp add: send_def)
  with a show ?thesis by simp
qed

text \<open>
  Claim C5. The text of a success response that is not JSON is to be passed through as
  opaque text and rendered as exactly one partial, not split into several.
  \<^verbatim>\<open>doAjax\<close> does pass the text through, but \<^verbatim>\<open>processUpdate\<close>, which
  documents its parameter as an object, takes \<^verbatim>\<open>Object.entries\<close> of what it is
  given, and the entries of a text are its characters by index. For the response of
  status 200 with the text \<^verbatim>\<open>hi\<close> the partial set has two partials,
  \<^verbatim>\<open>0\<close> with the content \<^verbatim>\<open>h\<close> and \<^verbatim>\<open>1\<close> with the content
  \<^verbatim>\<open>i\<close>.
\<close>

theorem text_split_into_characters:
  "snd (doAjax no_options (sample_env (Response (text_response 200 ''hi'')) selects_nothing)
          ''onSave'') = Fulfilled (Str ''hi'')
   \<and> object_entries (Str ''hi'') = Inr [(''0'', Str ''h''), (''1'', Str ''i'')]
   \<and> extract_partials [(''0'', Str ''h''), (''1'', Str ''i'')] =
       [(''0'', Str ''h''), (''1'', Str ''i'')]
   \<and> length (extract_partials [(''0'', Str ''h''), (''1'', Str ''i'')]) = 2"
  by (simp add: eval_defs)

section \<open>The body of the request\<close>


lemma foldl_append_entry: "foldl (\<lambda>fd kv. fd @ [kv]) acc d = acc @ d"
  by (induction d arbitrary: acc) simp_all

text \<open>
  Claim C6, as amended. The body of the POST is a \<^verbatim>\<open>FormData\<close>, sent as
  multipart form data, whose entries are those of \<^verbatim>\<open>options.data\<close>, whether
  \<^verbatim>\<open>options.files\<close> is enabled or not: setting \<^verbatim>\<open>files\<close> changes nothing
  of the body, and the one network call of \<^verbatim>\<open>doAjax\<close> carries that body.
\<close>

theorem body_always_multipart:
  "is_multipart (data opts)
   \<and> body_entries (data opts) = (case opt_data opts of Some kvs \<Rightarrow> kvs | None \<Rightarrow> [])
   \<and> data (opts\<lparr>opt_files := b\<rparr>) = data opts
   \<and> filter is_fetch (fst (doAjax opts env handler)) =
       [Fetch (url opts env) (headers opts env handler) (data opts)]"
  by (simp add: data_def doAjax_def foldl_append_entry Let_def split: option.splits)

text \<open>
  As first stated, the claim has the body encoded as key/value pairs, not multipart,
  when \<^verbatim>\<open>files\<close> is not enabled. With \<^verbatim>\<open>files\<close> absent and the data
  \<^verbatim>\<open>{name: "x"}\<close> the body handed to \<^verbatim>\<open>fetch\<close> is a \<^verbatim>\<open>FormData\<close>
  all the same.
\<close>

theorem body_multipart_without_files:
  "files (no_options\<lparr>opt_data := Some [(''name'', Str ''x'')]\<rparr>) = False
   \<and> fst (doAjax (no_options\<lparr>opt_data := Some [(''name'', Str ''x'')]\<rparr>)
             (sample_env NoResponse selects_nothing) ''onSave'') =
       [ConsoleLog (Obj [(''name'', Str ''x'')]),
        Fetch ''/''
          [(''X-Requested-With'', ''XMLHttpRequest''),
           (''X-WINTER-REQUEST-HANDLER'', ''onSave''),
           (''X-WINTER-REQUEST-PARTIALS'', [])]
          (MultipartFormData [(''name'', Str ''x'')])]
   \<and> is_multipart (MultipartFormData [(''name'', Str ''x'')]) = True"
  by (simp add: eval_defs)

section \<open>The confirmation callback\<close>


lemma update_elements_events:
  "update_elements env m content es page = (page', evs) \<Longrightarrow>
   filter is_fetch evs = [] \<and> filter is_global_confirm evs = []"
proof (induction es arbitrary: page page' evs)
  case Nil
  then show ?case by simp
next
  case (Cons e es)
  from Cons.prems show ?case
    by (auto split: prod.splits dest: Cons.IH)
qed

lemma doUpdate_loop_events:
  "filter is_fetch (snd (snd (doUpdate_loop opts env partials page resolved))) = []
   \<and> filter is_global_confirm (snd (snd (doUpdate_loop opts env partials page resolved))) = []"
proof (induction partials arbitrary: page resolved)
  case Nil
  then show ?case by simp
next
  case (Cons pc rest)
  show ?case
  proof (cases "resolve_selector (opt_update opts) (fst pc)")
    case (Inl e)
    then show ?thesis by simp
  next
    case (Inr ms)
    show ?thesis
    proof (cases "querySelectorAll env page (snd ms)")
      case (Inl e)
      with Inr show ?thesis by simp
    next
      case found: (Inr elements)
      obtain page1 evs1 where u: "(if length elements > 0
                      then update_elements env (fst ms) (snd pc) elements page
                      else (page, [])) = (page1, evs1)"
        by (cases "if length elements > 0
                      then update_elements env (fst ms) (snd pc) elements page
                      else (page, [])") simp
      have e1: "filter is_fetch evs1 = [] \<and> filter is_global_confirm evs1 = []"
        using u update_elements_events [of env "fst ms" "snd pc" elements page page1 evs1]
        by (auto split: if_splits)
      obtain p page2 evs2 where l: "doUpdate_loop opts env rest page1 True = (p, page2, evs2)"
        by (cases "doUpdate_loop opts env rest page1 True") auto
      have e2: "filter is_fetch evs2 = [] \<and> filter is_global_confirm evs2 = []"
        using Cons.IH [of page1 True] l by simp
      from Inr found u l e1 e2 show ?thesis by simp
    qed
  qed
qed

lemma callback_events_quiet:
  "filter is_fetch (callback_events name cb args) = []
   \<and> filter is_global_confirm (callback_events name cb args) = []"
  by (simp add: callback_events_def split: option.splits)

lemma processUpdate_events:
  "filter is_fetch (snd (snd (processUpdate opts env page response))) = []
   \<and> filter is_global_confirm (snd (snd (processUpdate opts env page response))) = []"
proof -
  obtain p page' evs where d: "doUpdate opts env (extract_partials (own_entries response)) page = (p, page', evs)"
    by (cases "doUpdate opts env (extract_partials (own_entries response)) page") auto
  have "filter is_fetch evs = [] \<and> filter is_global_confirm evs = []"
    using d doUpdate_loop_events [of opts env "extract_partials (own_entries response)" page False]
    by (simp add: doUpdate_def)
  with d show ?thesis
    using callback_events_quiet [of "''beforeUpdate''" "beforeUpdate opts" "[response]"]
    by (cases response; cases p)
       (auto simp: processUpdate_def Let_def split: promise.splits)
qed

lemma processErrorMessage_events:
  "filter is_fetch (processErrorMessage opts env message) = []
   \<and> filter is_global_confirm (processErrorMessage opts env message) = []"
  by (simp add: processErrorMessage_def callback_events_def Let_def split: option.splits)

lemma processValidationErrors_events:
  "filter is_fetch (processValidationErrors opts env element field_errors) = []
   \<and> filter is_global_confirm (processValidationErrors opts env element field_errors) = []"
  by (simp add: processValidationErrors_def callback_events_def Let_def split: option.splits)

lemma processFlashMessages_events:
  "filter is_fetch (processFlashMessages opts env messages) = []
   \<and> filter is_global_confirm (processFlashMessages opts env messages) = []"
  by (simp add: processFlashMessages_def callback_events_def Let_def split: option.splits)

lemma processRedirect_events:
  "filter is_fetch (processRedirect opts env target) = []
   \<and> filter is_global_confirm (processRedirect opts env target) = []"
  by (simp add: processRedirect_def callback_events_def Let_def split: option.splits)

lemma processError_events:
  "filter is_fetch (processError opts env element err) = []
   \<and> filter is_global_confirm (processError opts env element err) = []"
  by (simp add: processError_def processErrorMessage_events processValidationErrors_events
      split: sum.splits)

lemma processResponse_events:
  "filter is_fetch (processResponse opts env response) = []
   \<and> filter is_global_confirm (processResponse opts env response) = []"
  by (simp add: processResponse_def processRedirect_events processFlashMessages_events)

lemma dispatch_events:
  "filter is_fetch (dispatch opts env element response) = []
   \<and> filter is_global_confirm (dispatch opts env element response) = []"
  by (simp add: dispatch_def processError_events processResponse_events)

lemma on_response_events:
  "filter is_fetch (fst (on_response opts env element page response)) = []
   \<and> filter is_global_confirm (fst (on_response opts env element page response)) = []"
  using processUpdate_events [of opts env page response] dispatch_events [of opts env element response]
  by (cases "processUpdate opts env page response")
     (auto simp: on_response_def split: promise.splits)

lemma send_events:
  "filter is_fetch (fst (send opts env element handler page)) =
     [Fetch (url opts env) (headers opts env handler) (data opts)]
   \<and> filter is_global_confirm (fst (send opts env element handler page)) = []"
proof -
  obtain evs outcome where d: "doAjax opts env handler = (evs, outcome)"
    by (cases "doAjax opts env handler") auto
  then have evs: "evs = [ConsoleLog (Obj (case opt_data opts of Some kvs \<Rightarrow> kvs | None \<Rightarrow> [])),
      Fetch (url opts env) (headers opts env handler) (data opts)]"
    by (auto simp: doAjax_def Let_def)
  show ?thesis
  proof (cases outcome)
    case (Fulfilled response)
    obtain evs' page' where o: "on_response opts env element page response = (evs', page')"
      by (cases "on_response opts env element page response") auto
    with on_response_events [of opts env element page response]
    have "filter is_fetch evs' = [] \<and> filter is_global_confirm evs' = []" by simp
    with d evs Fulfilled o show ?thesis by (simp add: send_def)
  next
    case (Rejected error)
    with d evs processError_events [of opts env element "Inl error"] show ?thesis
      by (simp add: send_def)
  next
    case Pending
    with d evs show ?thesis by (simp add: send_def)
  qed
qed

lemma doClientValidation_events:
  "filter is_fetch (fst (doClientValidation opts env element)) = []
   \<and> filter is_global_confirm (fst (doClientValidation opts env element)) = []"
  by (simp add: doClientValidation_def split: option.splits)

text \<open>
  Claim C7. Take a request that passes the construction check, the setup hook and
  client-side validation, whose options (as the setup listeners leave them) have a
  non-empty \<^verbatim>\<open>confirm\<close> and a \<^verbatim>\<open>handleConfirmMessage\<close> callback. The
  constructor throws nothing, and the callback is called with the prompt
  text. The confirmation hook is neither asked for its listeners nor broadcast, and the
  \<^verbatim>\<open>confirm\<close> of the browser is not called. When the callback returns anything
  but the literal \<^verbatim>\<open>false\<close> there is exactly one network call; when it returns
  \<^verbatim>\<open>false\<close> there is none, the call of the callback is the last event of the
  lifecycle, and the page is as it was.
\<close>

theorem confirm_callback_owns_decision:
  assumes "checkRequest element handler = Inr h"
    and "truthy (globalEvent env ''ajaxSetup'' [])"
    and "setupListeners env opts0 = opts"
    and "doClientValidation opts env (element_of element) = (vevs, True)"
    and "opt_confirm opts = Some c" and "c \<noteq> []"
    and "handleConfirmMessage opts = Some f"
  shows "\<exists>trace page'.
           request_constructor env page element handler opts0 = Inr (trace, page')
         \<and> Callback ''handleConfirmMessage'' [Str c] \<in> set trace
         \<and> filter is_global_confirm trace = []
         \<and> filter is_fetch trace =
             (if f [Str c] = Bool False then []
              else [Fetch (url opts env) (headers opts env h) (data opts)])
         \<and> (f [Str c] = Bool False \<longrightarrow>
              trace = [GlobalEvent ''ajaxSetup'' []] @ vevs @ [Callback ''handleConfirmMessage'' [Str c]]
              \<and> page' = page)"
proof -
  from assms(5,6) have conf: "confirm opts = Str c" by (simp add: confirm_def js_or_def)
  have quiet: "filter is_fetch vevs = [] \<and> filter is_global_confirm vevs = []"
    using doClientValidation_events [of opts env "element_of element"] assms(4) by simp
  show ?thesis
  proof (cases "f [Str c] = Bool False")
    case True
    with assms conf have "request_constructor env page element handler opts0 =
        Inr ([GlobalEvent ''ajaxSetup'' []] @ vevs @ [Callback ''handleConfirmMessage'' [Str c]], page)"
      by (simp add: request_constructor_def doConfirm_def)
    with True quiet show ?thesis by simp
  next
    case False
    obtain evs page' where s: "send opts env (element_of element) h page = (evs, page')"
      by (cases "send opts env (element_of element) h page") auto
    with send_events [of opts env "element_of element" h page]
    have ev: "filter is_fetch evs = [Fetch (url opts env) (headers opts env h) (data opts)]"
      "filter is_global_confirm evs = []" by simp_all
    from False assms conf s have "request_constructor env page element handler opts0 =
        Inr ([GlobalEvent ''ajaxSetup'' []] @ vevs @ [Callback ''handleConfirmMessage'' [Str c]] @ evs, page')"
      by (simp add: request_constructor_def doConfirm_def)
    with False quiet ev show ?thesis by simp
  qed
qed

theorem confirm_callback_owns_decision_witness:
  "checkRequest Undefined (Str ''onSave'') = Inr ''onSave''
   \<and> truthy (globalEvent (sample_env NoResponse selects_nothing) ''ajaxSetup'' [])
   \<and> doClientValidation
        (no_options\<lparr>opt_confirm := Some ''Sure?'', handleConfirmMessage := Some returning_false\<rparr>)
        (sample_env NoResponse selects_nothing) (element_of Undefined) = ([], True)
   \<and> request_constructor (sample_env NoResponse selects_nothing) blank_page Undefined
        (Str ''onSave'')
        (no_options\<lparr>opt_confirm := Some ''Sure?'', handleConfirmMessage := Some returning_false\<rparr>) =
       Inr ([GlobalEvent ''ajaxSetup'' [], Callback ''handleConfirmMessage'' [Str ''Sure?'']],
            blank_page)"
proof -
  let ?env = "sample_env NoResponse selects_nothing"
  let ?opts = "no_options\<lparr>opt_confirm := Some ''Sure?'', handleConfirmMessage := Some returning_false\<rparr>"
  have h1: "checkRequest Undefined (Str ''onSave'') = Inr ''onSave''"
    by (simp add: checkRequest_def handler_matches_def handler_rx_def)
  have h2: "truthy (globalEvent ?env ''ajaxSetup'' [])" by (simp add: sample_env_def)
  have h3: "setupListeners ?env ?opts = ?opts" by (simp add: sample_env_def)
  have h4: "doClientValidation ?opts ?env (element_of Undefined) = ([], True)"
    by (simp add: doClientValidation_def no_options_def)
  have h5: "opt_confirm ?opts = Some ''Sure?''" by simp
  have h6: "''Sure?'' \<noteq> []" by simp
  have h7: "handleConfirmMessage ?opts = Some returning_false" by simp
  from confirm_callback_owns_decision [OF h1 h2 h3 h4 h5 h6 h7, of blank_page]
  have "request_constructor ?env blank_page Undefined (Str ''onSave'') ?opts =
       Inr ([GlobalEvent ''ajaxSetup'' [], Callback ''handleConfirmMessage'' [Str ''Sure?'']],
            blank_page)"
    by auto
  with h1 h2 h4 show ?thesis by simp
qed

section \<open>Side-channel keys\<close>

lemma own_keys_set_property:
  "fst ` set (own_entries (set_property k v target)) \<subseteq> insert k (fst ` set (own_entries target))"
  by (cases target) (auto simp: set_property_def AList.dom_update)

lemma extract_loop_keys:
  "fst ` set (own_entries (extract_loop acc entries))
   \<subseteq> fst ` set (own_entries acc) \<union> {k \<in> fst ` set entries. take 8 k \<noteq> ''X_WINTER''}"
proof (induction entries arbitrary: acc)
  case Nil
  then show ?case by (simp add: extract_loop_def)
next
  case (Cons kv entries)
  show ?case
  proof (cases "take 8 (fst kv) \<noteq> ''X_WINTER''")
    case True
    then have "extract_loop acc (kv # entries) =
        extract_loop (set_property (fst kv) (snd kv) acc) entries"
      by (simp add: extract_loop_def)
    moreover have "fst ` set (own_entries (extract_loop (set_property (fst kv) (snd kv) acc) entries))
        \<subseteq> insert (fst kv) (fst ` set (own_entries acc))
          \<union> {k \<in> fst ` set entries. take 8 k \<noteq> ''X_WINTER''}"
      using Cons [of "set_property (fst kv) (snd kv) acc"]
        own_keys_set_property [of "fst kv" "snd kv" acc]
      by blast
    moreover have "insert (fst kv) (fst ` set (own_entries acc))
          \<union> {k \<in> fst ` set entries. take 8 k \<noteq> ''X_WINTER''}
        \<subseteq> fst ` set (own_entries acc)
          \<union> {k \<in> fst ` set (kv # entries). take 8 k \<noteq> ''X_WINTER''}"
      using True by auto
    ultimately show ?thesis by (simp only:)
  next
    case False
    then have "extract_loop acc (kv # entries) = extract_loop acc entries"
      by (simp add: extract_loop_def)
    with Cons [of acc] show ?thesis by auto
  qed
qed

lemma extract_partials_keys:
  "fst ` set (extract_partials entries) \<subseteq> {k \<in> fst ` set entries. take 8 k \<noteq> ''X_WINTER''}"
  using extract_loop_keys [of "Obj []" entries] by (simp add: extract_partials_def)

lemma extract_loop_skip:
  "take 8 k = ''X_WINTER'' \<Longrightarrow>
   extract_loop acc (filter (\<lambda>kv. fst kv \<noteq> k) entries) = extract_loop acc entries"
  unfolding extract_loop_def by (induction entries arbitrary: acc) auto

lemma extract_partials_skip:
  "take 8 k = ''X_WINTER'' \<Longrightarrow>
   extract_partials (filter (\<lambda>kv. fst kv \<noteq> k) entries) = extract_partials entries"
  by (simp add: extract_partials_def extract_loop_skip)

lemma update_elements_page_access:
  "update_elements env m content es page = (page', evs) \<Longrightarrow> filter is_page_access evs = evs"
proof (induction es arbitrary: page page' evs)
  case Nil
  then show ?case by simp
next
  case (Cons e es)
  from Cons.prems show ?case
    by (auto split: prod.splits dest: Cons.IH)
qed

lemma doUpdate_loop_page_access:
  "doUpdate_loop opts env partials page resolved = (p, page', evs) \<Longrightarrow>
   filter is_page_access evs = evs"
proof (induction partials arbitrary: page resolved p page' evs)
  case Nil
  then show ?case by simp
next
  case (Cons pc rest)
  show ?case
  proof (cases "resolve_selector (opt_update opts) (fst pc)")
    case (Inl e)
    with Cons.prems show ?thesis by auto
  next
    case (Inr ms)
    show ?thesis
    proof (cases "querySelectorAll env page (snd ms)")
      case (Inl e)
      with Inr Cons.prems show ?thesis by auto
    next
      case found: (Inr elements)
      obtain page1 evs1 where u: "(if length elements > 0
                      then update_elements env (fst ms) (snd pc) elements page
                      else (page, [])) = (page1, evs1)"
        by (cases "if length elements > 0
                      then update_elements env (fst ms) (snd pc) elements page
                      else (page, [])") simp
      have e1: "filter is_page_access evs1 = evs1"
        using u update_elements_page_access [of env "fst ms" "snd pc" elements page page1 evs1]
        by (auto split: if_splits)
      obtain q page2 evs2 where l: "doUpdate_loop opts env rest page1 True = (q, page2, evs2)"
        by (cases "doUpdate_loop opts env rest page1 True") auto
      have e2: "filter is_page_access evs2 = evs2"
        using Cons.IH [OF l] .
      from Inr found u l Cons.prems have "evs = QuerySelectorAll (snd ms) # evs1 @ evs2"
        by simp
      with e1 e2 show ?thesis by simp
    qed
  qed
qed

lemma callback_events_no_page_access:
  "filter is_page_access (callback_events name cb args) = []"
  by (simp add: callback_events_def split: option.splits)

lemma update_elements_writes:
  "update_elements env m content es page = (page', evs) \<Longrightarrow> SetInnerHTML e h \<in> set evs \<Longrightarrow>
   \<exists>inner. h = apply_mode m inner (sanitize env content)"
proof (induction es arbitrary: page page' evs)
  case Nil
  then show ?case by simp
next
  case (Cons x es)
  from Cons.prems show ?case
    by (auto split: prod.splits dest: Cons.IH)
qed

lemma doUpdate_loop_writes:
  "doUpdate_loop opts env partials page resolved = (p, page', evs) \<Longrightarrow>
   SetInnerHTML e h \<in> set evs \<Longrightarrow>
   \<exists>pc \<in> set partials. \<exists>m inner. h = apply_mode m inner (sanitize env (snd pc))"
proof (induction partials arbitrary: page resolved p page' evs)
  case Nil
  then show ?case by simp
next
  case (Cons pc rest)
  show ?case
  proof (cases "resolve_selector (opt_update opts) (fst pc)")
    case (Inl err)
    with Cons.prems show ?thesis by auto
  next
    case (Inr ms)
    show ?thesis
    proof (cases "querySelectorAll env page (snd ms)")
      case (Inl err)
      with Inr Cons.prems show ?thesis by auto
    next
      case found: (Inr elements)
      obtain page1 evs1 where u: "(if length elements > 0
                      then update_elements env (fst ms) (snd pc) elements page
                      else (page, [])) = (page1, evs1)"
        by (cases "if length elements > 0
                      then update_elements env (fst ms) (snd pc) elements page
                      else (page, [])") simp
      obtain q page2 evs2 where l: "doUpdate_loop opts env rest page1 True = (q, page2, evs2)"
        by (cases "doUpdate_loop opts env rest page1 True") auto
      from Inr found u l Cons.prems(1) have "evs = QuerySelectorAll (snd ms) # evs1 @ evs2"
        by simp
      with Cons.prems(2) consider "SetInnerHTML e h \<in> set evs1" | "SetInnerHTML e h \<in> set evs2"
        by auto
      then show ?thesis
      proof cases
        case 1
        with u have "update_elements env (fst ms) (snd pc) elements page = (page1, evs1)"
          by (auto split: if_splits)
        from update_elements_writes [OF this 1]
        show ?thesis by auto
      next
        case 2
        from Cons.IH [OF l 2] show ?thesis by auto
      qed
    qed
  qed
qed

lemma processUpdate_writes:
  assumes "object_entries response = Inr entries"
    and "processUpdate opts env page response = (p, page', evs)"
    and "SetInnerHTML e h \<in> set evs"
  shows "\<exists>pc \<in> set (extract_partials entries). \<exists>m inner. h = apply_mode m inner (sanitize env (snd pc))"
proof -
  obtain q page'' evs' where d: "doUpdate opts env (extract_partials entries) page = (q, page'', evs')"
    by (cases "doUpdate opts env (extract_partials entries) page") auto
  from assms d have "SetInnerHTML e h \<in> set evs'"
    by (cases q) (auto simp: processUpdate_def Let_def callback_events_def
        split: promise.splits if_splits option.splits)
  with d doUpdate_loop_writes [of opts env "extract_partials entries" page False q page'' evs' e h]
  show ?thesis by (simp add: doUpdate_def)
qed

text \<open>
  Claim C8. Let \<open>k\<close> be a key that begins with the side-channel marker
  \<^verbatim>\<open>X_WINTER\<close>, in a payload the update phase is given. Then \<open>k\<close> is no key of
  the partial set, and the partial set is that of the payload without \<open>k\<close>. Whatever
  \<^verbatim>\<open>processUpdate\<close> does to the page is either nothing (no query, no write, the
  page as it was), or exactly the queries, the writes and the page of \<^verbatim>\<open>doUpdate\<close>
  run on the partial set of the payload without \<open>k\<close>. And every write it makes applies
  the content of a partial of the partial set whose key is not \<open>k\<close>: the value under
  \<open>k\<close> is never applied to the page.
\<close>

theorem marker_key_never_rendered:
  assumes "take 8 k = ''X_WINTER''" and "object_entries response = Inr entries"
    and "processUpdate opts env page response = (p, page', evs)"
  shows "k \<notin> fst ` set (extract_partials entries)
       \<and> extract_partials (filter (\<lambda>kv. fst kv \<noteq> k) entries) = extract_partials entries
       \<and> ((page' = page \<and> filter is_page_access evs = [])
          \<or> (case doUpdate opts env
                     (extract_partials (filter (\<lambda>kv. fst kv \<noteq> k) entries)) page of
                (q, page'', evs') \<Rightarrow> page' = page'' \<and> filter is_page_access evs = evs'))
       \<and> (\<forall>e h. SetInnerHTML e h \<in> set evs \<longrightarrow>
            (\<exists>pc \<in> set (extract_partials entries).
               fst pc \<noteq> k \<and> (\<exists>m inner. h = apply_mode m inner (sanitize env (snd pc)))))"
proof -
  have a: "k \<notin> fst ` set (extract_partials entries)"
    using assms(1) extract_partials_keys [of entries] by auto
  have c: "extract_partials (filter (\<lambda>kv. fst kv \<noteq> k) entries) = extract_partials entries"
    using assms(1) by (rule extract_partials_skip)
  obtain q page'' evs' where d: "doUpdate opts env (extract_partials entries) page = (q, page'', evs')"
    by (cases "doUpdate opts env (extract_partials entries) page") auto
  then have acc: "filter is_page_access evs' = evs'"
    using doUpdate_loop_page_access [of opts env "extract_partials entries" page False q page'' evs']
    by (simp add: doUpdate_def)
  have e: "(page' = page \<and> filter is_page_access evs = [])
              \<or> (page' = page'' \<and> filter is_page_access evs = evs')"
    using assms(2,3) d acc
      callback_events_no_page_access [of "''beforeUpdate''" "beforeUpdate opts" "[response]"]
    by (cases q) (auto simp: processUpdate_def Let_def split: promise.splits if_splits)
  have w: "\<exists>pc \<in> set (extract_partials entries).
               fst pc \<noteq> k \<and> (\<exists>m inner. h = apply_mode m inner (sanitize env (snd pc)))"
    if "SetInnerHTML e h \<in> set evs" for e h
  proof -
    from processUpdate_writes [OF assms(2,3) that]
    obtain pc where pc: "pc \<in> set (extract_partials entries)"
      "\<exists>m inner. h = apply_mode m inner (sanitize env (snd pc))" by blast
    with a have "fst pc \<noteq> k" by force
    with pc show ?thesis by blast
  qed
  from a c d e w show ?thesis by (simp add: c) 
qed

theorem marker_key_never_rendered_witness:
  "take 8 ''X_WINTER_REDIRECT'' = ''X_WINTER''
   \<and> object_entries (Obj [(''foo'', Str ''<p>hi</p>''), (''X_WINTER_REDIRECT'', Str ''/done'')]) =
       Inr [(''foo'', Str ''<p>hi</p>''), (''X_WINTER_REDIRECT'', Str ''/done'')]
   \<and> processUpdate (no_options\<lparr>opt_update := Some []\<rparr>) (sample_env NoResponse selects_foo)
        blank_page (Obj [(''foo'', Str ''<p>hi</p>''), (''X_WINTER_REDIRECT'', Str ''/done'')]) =
       (Fulfilled (), blank_page(1 := ''<p>hi</p>''),
        [GlobalPromiseEvent ''ajaxBeforeUpdate''
           [Obj [(''foo'', Str ''<p>hi</p>''), (''X_WINTER_REDIRECT'', Str ''/done'')]],
         QuerySelectorAll ''foo'', SetInnerHTML 1 ''<p>hi</p>'', RequestAnimationFrame])
   \<and> ''X_WINTER_REDIRECT'' \<notin>
        fst ` set (extract_partials
          [(''foo'', Str ''<p>hi</p>''), (''X_WINTER_REDIRECT'', Str ''/done'')])
   \<and> extract_partials [(''foo'', Str ''<p>hi</p>''), (''X_WINTER_REDIRECT'', Str ''/done'')] =
       [(''foo'', Str ''<p>hi</p>'')]"
proof -
  let ?entries = "[(''foo'', Str ''<p>hi</p>''), (''X_WINTER_REDIRECT'', Str ''/done'')]"
  let ?opts = "no_options\<lparr>opt_update := Some []\<rparr>"
  let ?env = "sample_env NoResponse selects_foo"
  have h1: "take 8 ''X_WINTER_REDIRECT'' = ''X_WINTER''" by simp
  have h2: "object_entries (Obj ?entries) = Inr ?entries" by simp
  have h3: "processUpdate ?opts ?env blank_page (Obj ?entries) =
       (Fulfilled (), blank_page(1 := ''<p>hi</p>''),
        [GlobalPromiseEvent ''ajaxBeforeUpdate'' [Obj ?entries],
         QuerySelectorAll ''foo'', SetInnerHTML 1 ''<p>hi</p>'', RequestAnimationFrame])"
    by (simp add: eval_defs)
  have e: "extract_partials ?entries = [(''foo'', Str ''<p>hi</p>'')]"
    by (simp add: eval_defs)
  from marker_key_never_rendered [OF h1 h2 h3]
  have "''X_WINTER_REDIRECT'' \<notin> fst ` set (extract_partials ?entries)" by blast
  with h1 h2 h3 e show ?thesis by simp
qed

section \<open>Selectors that select nothing\<close>

lemma doUpdate_loop_resolved_aux:
  "doUpdate_loop opts env partials page True = (p, page', evs) \<Longrightarrow> p = Fulfilled ()"
proof (induction partials arbitrary: page p page' evs)
  case Nil
  then show ?case by simp
next
  case (Cons pc rest)
  from Cons.prems show ?case
    by (auto split: sum.splits prod.splits if_splits dest: Cons.IH)
qed

lemma doUpdate_loop_resolved:
  "fst (doUpdate_loop opts env partials page True) = Fulfilled ()"
  using doUpdate_loop_resolved_aux [of opts env partials page]
  by (cases "doUpdate_loop opts env partials page True") simp

text \<open>
  A partial that is no key of the mapping and is named as a property of
  \<^verbatim>\<open>Object.prototype\<close> has no resolved selector: the iteration throws before
  it queries the page.
\<close>

lemma inherited_name_throws:
  "resolve_selector (Some []) ''toString'' = Inl (TypeError ''selector.substr is not a function'')
   \<and> doUpdate (no_options\<lparr>opt_update := Some []\<rparr>) (sample_env NoResponse selects_nothing)
        [(''toString'', Str ''x'')] blank_page = (Rejected (), blank_page, [])"
  by (simp add: eval_defs)

text \<open>
  Claim C9. When the loop of \<^verbatim>\<open>doUpdate\<close> comes to a partial whose selector is
  resolved and selects no element, the iteration throws nothing and writes nothing: it
  queries the page, calls \<^verbatim>\<open>resolve\<close>, and goes on with the other partials from
  the same page. The promise is fulfilled, whatever the later iterations do; a partial
  set of that one partial leaves the page as it was.
\<close>

theorem no_match_is_noop:
  assumes "resolve_selector (opt_update opts) partial = Inr (m, selector)"
    and "querySelectorAll env page selector = Inr []"
  shows "doUpdate_loop opts env ((partial, content) # rest) page resolved =
           (case doUpdate_loop opts env rest page True of
              (p, page', evs) \<Rightarrow> (p, page', QuerySelectorAll selector # evs))
       \<and> fst (doUpdate_loop opts env ((partial, content) # rest) page resolved) = Fulfilled ()
       \<and> doUpdate_loop opts env [(partial, content)] page resolved =
           (Fulfilled (), page, [QuerySelectorAll selector])"
proof -
  have step: "doUpdate_loop opts env ((partial, content) # rest) page resolved =
           (case doUpdate_loop opts env rest page True of
              (p, page', evs) \<Rightarrow> (p, page', QuerySelectorAll selector # evs))" for rest
    using assms by (simp split: prod.splits)
  have "fst (doUpdate_loop opts env ((partial, content) # rest) page resolved) =
      fst (doUpdate_loop opts env rest page True)"
    unfolding step by (simp split: prod.splits)
  then have res: "fst (doUpdate_loop opts env ((partial, content) # rest) page resolved) = Fulfilled ()"
    by (simp add: doUpdate_loop_resolved)
  have one: "doUpdate_loop opts env [(partial, content)] page resolved =
           (Fulfilled (), page, [QuerySelectorAll selector])"
    unfolding step by simp
  from step res one show ?thesis by simp
qed

theorem no_match_is_noop_witness:
  "resolve_selector (opt_update (no_options\<lparr>opt_update := Some []\<rparr>)) ''foo'' = Inr (Replace, ''foo'')
   \<and> querySelectorAll (sample_env NoResponse selects_nothing) blank_page ''foo'' = Inr []
   \<and> doUpdate_loop (no_options\<lparr>opt_update := Some []\<rparr>) (sample_env NoResponse selects_nothing)
        [(''foo'', Str ''<p>hi</p>'')] blank_page False =
        (Fulfilled (), blank_page, [QuerySelectorAll ''foo''])"
proof -
  have h1: "resolve_selector (opt_update (no_options\<lparr>opt_update := Some []\<rparr>)) ''foo'' = Inr (Replace, ''foo'')"
    by (simp add: resolve_selector_def no_options_def object_prototype_names_def selector_mode_def)
  have h2: "querySelectorAll (sample_env NoResponse selects_nothing) blank_page ''foo'' = Inr []"
    by (simp add: sample_env_def)
  show ?thesis
    using h1 h2 no_match_is_noop [OF h1 h2, of "Str ''<p>hi</p>''" "[]" False]
    by simp
qed

end
